theory Spec2Isabelle
  imports Main "HOL-Library.Multiset" "HOL-Library.Sublist"
begin

section \<open>Data model\<close>

text \<open>
  The repository holds two versions of the package catalogs and of the resolver
  \<^verbatim>\<open>GetPackages\<close>: \<^verbatim>\<open>src/pkg/values/packagemaps.go\<close> (names suffixed \<open>_pm\<close> below) and
  the Go source embedded in \<^verbatim>\<open>src/Dockerfile\<close> from line 24 on (names suffixed \<open>_df\<close>).
\<close>

text \<open>
  Modelled from the spec: the types \<^verbatim>\<open>Distro\<close>, \<^verbatim>\<open>Family\<close>, \<^verbatim>\<open>Architecture\<close> and
  \<^verbatim>\<open>System\<close> and the constant \<^verbatim>\<open>Common\<close> are declared in files of package
  \<^verbatim>\<open>values\<close> that are not among the sources. The constructors below are the constants the
  two source files use as catalog keys; \<open>OtherDistro\<close>, \<open>OtherFamily\<close> and \<open>OtherArch\<close> stand
  for every further value of the enumeration.
\<close>

datatype Distro = Debian | Ubuntu | Fedora | OtherDistro string

datatype Family = DebianFamily | RedHatFamily | SUSEFamily | ArchFamily | AlpineFamily
  | OtherFamily string

datatype Architecture = ArchAMD64 | ArchARM64 | ArchCommon | OtherArch string

record System =
  Distro :: Distro
  Family :: Family
  Arch :: Architecture
  Version :: string

definition Common :: string where
  "Common = ''common''"

text \<open>
  \<^verbatim>\<open>type DistroFamilyInterface interface{}\<close>: a key of a \<^verbatim>\<open>PackageMap\<close> is a value of
  either type; two interface values are equal when dynamic type and value agree, so a
  distro key never equals a family key.
\<close>

datatype DistroFamilyInterface = OfDistro Distro | OfFamily Family

text \<open>
  \<^verbatim>\<open>type VersionMap map[string][]string\<close> and
  \<^verbatim>\<open>type PackageMap map[DistroFamilyInterface]map[Architecture]VersionMap\<close>.
  A map is represented by the entries of its literal, in the order they are written;
  the keys of a Go map literal are pairwise distinct. Indexing a map with a key it does
  not hold yields the zero value, the nil map, which has no entries.
\<close>

type_synonym VersionMap = "(string \<times> string list) list"
type_synonym ArchMap = "(Architecture \<times> VersionMap) list"
type_synonym PackageMap = "(DistroFamilyInterface \<times> ArchMap) list"

definition index_PackageMap :: "PackageMap \<Rightarrow> DistroFamilyInterface \<Rightarrow> ArchMap" where
  "index_PackageMap m k = (case map_of m k of None \<Rightarrow> [] | Some a \<Rightarrow> a)"

definition index_ArchMap :: "ArchMap \<Rightarrow> Architecture \<Rightarrow> VersionMap" where
  "index_ArchMap m k = (case map_of m k of None \<Rightarrow> [] | Some a \<Rightarrow> a)"

text \<open>The expression \<^verbatim>\<open>pm[k][a]\<close>.\<close>

definition lookup :: "PackageMap \<Rightarrow> DistroFamilyInterface \<Rightarrow> Architecture \<Rightarrow> VersionMap" where
  "lookup pm k a = index_ArchMap (index_PackageMap pm k) a"

text \<open>
  The package-level variables of the two files. \<^verbatim>\<open>KernelPackagesTrustedBoot\<close> exists in
  the Dockerfile version only.
\<close>

record catalogs =
  CommonPackages :: "string list"
  ImmucorePackages :: PackageMap
  KernelPackages :: PackageMap
  BasePackages :: PackageMap
  GrubPackages :: PackageMap
  SystemdPackages :: PackageMap

record catalogs_df = catalogs +
  KernelPackagesTrustedBoot :: PackageMap

text \<open>
  The version library \<^verbatim>\<open>github.com/hashicorp/go-version\<close> (imported as \<^verbatim>\<open>semver\<close>) is
  not part of the repository. The resolver is modelled over any implementation of the
  three operations it calls; \<open>None\<close> stands for a returned error.
\<close>

record ('v, 'c) semver =
  NewVersion :: "string \<Rightarrow> 'v option"
  NewConstraint :: "string \<Rightarrow> 'c option"
  Check :: "'c \<Rightarrow> 'v \<Rightarrow> bool"
  VersionString :: "'v \<Rightarrow> string"

text \<open>The records written to the logger \<^verbatim>\<open>l\<close>: level, fields, message.\<close>

datatype log_field = Str string string | Strs string "string list" | Err

datatype log_event = LogDebug "log_field list" string | LogError "log_field list" string

datatype error = VersionParseError | TemplateSyntaxError | TemplateExecutionError

section \<open>The constraint loop\<close>

text \<open>
  The body of \<^verbatim>\<open>for constraint, values := range packages\<close>, the same text in
  \<^verbatim>\<open>packagemaps.go\<close> lines 428--446 and \<^verbatim>\<open>Dockerfile\<close> lines 720--738, over the entries
  in the order the iteration visits them. The state is the slice appended to and the log.
\<close>

fun range_packages ::
  "('v, 'c) semver \<Rightarrow> 'v \<Rightarrow> VersionMap \<Rightarrow> string list \<times> log_event list
    \<Rightarrow> string list \<times> log_event list" where
  "range_packages sv systemVersion [] st = st"
| "range_packages sv systemVersion ((constraint, vals) # rest) (pkgs, lg) =
    (let lg1 = lg @ [LogDebug [Str ''constraint'' constraint,
                               Str ''version'' (VersionString sv systemVersion)]
                              ''Checking constraint'']
     in if constraint = Common
        then range_packages sv systemVersion rest
               (pkgs @ vals, lg1 @ [LogDebug [Strs ''packages'' vals] ''Adding common packages''])
        else (case NewConstraint sv constraint of
                None \<Rightarrow> range_packages sv systemVersion rest
                  (pkgs, lg1 @ [LogError [Err, Str ''constraint'' constraint]
                                         ''Error parsing constraint.''])
              | Some semverConstraint \<Rightarrow>
                  if Check sv semverConstraint systemVersion
                  then range_packages sv systemVersion rest
                         (pkgs @ vals, lg1 @ [LogDebug [Strs ''packages'' vals]
                                                       ''Constraint matches, adding packages''])
                  else range_packages sv systemVersion rest (pkgs, lg1)))"

text \<open>The outer loop \<^verbatim>\<open>for _, packages := range filteredPackages\<close> over a slice.\<close>

fun range_filteredPackages ::
  "('v, 'c) semver \<Rightarrow> 'v \<Rightarrow> VersionMap list \<Rightarrow> string list \<times> log_event list
    \<Rightarrow> string list \<times> log_event list" where
  "range_filteredPackages sv systemVersion [] st = st"
| "range_filteredPackages sv systemVersion (packages # rest) st =
    range_filteredPackages sv systemVersion rest (range_packages sv systemVersion packages st)"

text \<open>
  Go leaves the iteration order of \<^verbatim>\<open>range\<close> over a map unspecified: every entry is
  visited once, in an order that may differ from run to run. \<open>range_order m es\<close> says
  that \<open>es\<close> is one such order of the entries of \<open>m\<close>, and \<open>range_orders ms ess\<close> that
  \<open>ess\<close> gives one for each map of the slice \<open>ms\<close>.
\<close>

definition range_order :: "VersionMap \<Rightarrow> VersionMap \<Rightarrow> bool" where
  "range_order m es \<longleftrightarrow> mset es = mset m"

definition range_orders :: "VersionMap list \<Rightarrow> VersionMap list \<Rightarrow> bool" where
  "range_orders ms ess \<longleftrightarrow> list_all2 range_order ms ess"

section \<open>The resolver of packagemaps.go\<close>

text \<open>
  \<^verbatim>\<open>filteredPackages\<close> as built in lines 396--423; \<open>TrustedBoot\<close> is the value of
  \<^verbatim>\<open>config.DefaultConfig.TrustedBoot\<close>.
\<close>

definition filteredPackages_pm :: "'a catalogs_scheme \<Rightarrow> bool \<Rightarrow> System \<Rightarrow> VersionMap list" where
  "filteredPackages_pm g TrustedBoot s =
    [ lookup (BasePackages g) (OfDistro (Distro s)) ArchCommon,
      lookup (BasePackages g) (OfFamily (Family s)) ArchCommon,
      lookup (BasePackages g) (OfDistro (Distro s)) (Arch s),
      lookup (BasePackages g) (OfFamily (Family s)) (Arch s),
      lookup (KernelPackages g) (OfDistro (Distro s)) ArchCommon,
      lookup (KernelPackages g) (OfFamily (Family s)) ArchCommon,
      lookup (KernelPackages g) (OfDistro (Distro s)) (Arch s),
      lookup (KernelPackages g) (OfFamily (Family s)) (Arch s) ]
    @ (if TrustedBoot
       then [ lookup (SystemdPackages g) (OfDistro (Distro s)) ArchCommon,
              lookup (SystemdPackages g) (OfFamily (Family s)) ArchCommon,
              lookup (SystemdPackages g) (OfDistro (Distro s)) (Arch s),
              lookup (SystemdPackages g) (OfFamily (Family s)) (Arch s) ]
       else [ lookup (GrubPackages g) (OfDistro (Distro s)) ArchCommon,
              lookup (GrubPackages g) (OfFamily (Family s)) ArchCommon,
              lookup (GrubPackages g) (OfDistro (Distro s)) (Arch s),
              lookup (GrubPackages g) (OfFamily (Family s)) (Arch s),
              lookup (ImmucorePackages g) (OfDistro (Distro s)) ArchCommon,
              lookup (ImmucorePackages g) (OfFamily (Family s)) ArchCommon,
              lookup (ImmucorePackages g) (OfDistro (Distro s)) (Arch s),
              lookup (ImmucorePackages g) (OfFamily (Family s)) (Arch s) ])"

text \<open>
  One run of \<^verbatim>\<open>GetPackages\<close> (lines 388--450) in which the map iterations visit the
  entries in the orders \<open>ess\<close>: the returned value and the log.
\<close>

definition GetPackages_pm_run ::
  "('v, 'c) semver \<Rightarrow> 'a catalogs_scheme \<Rightarrow> System \<Rightarrow> VersionMap list
    \<Rightarrow> (error + string list) \<times> log_event list" where
  "GetPackages_pm_run sv g s ess =
    (let mergedPkgs = CommonPackages g
     in case NewVersion sv (Version s) of
          None \<Rightarrow> (Inl VersionParseError, [])
        | Some systemVersion \<Rightarrow>
            (case range_filteredPackages sv systemVersion ess (mergedPkgs, []) of
               (mergedPkgs', lg) \<Rightarrow> (Inr mergedPkgs', lg)))"

text \<open>\<^verbatim>\<open>GetPackages\<close>: the outcomes of all runs.\<close>

definition GetPackages_pm ::
  "('v, 'c) semver \<Rightarrow> 'a catalogs_scheme \<Rightarrow> bool \<Rightarrow> System
    \<Rightarrow> (error + string list) \<times> log_event list \<Rightarrow> bool" where
  "GetPackages_pm sv g TrustedBoot s r \<longleftrightarrow>
    (\<exists>ess. range_orders (filteredPackages_pm g TrustedBoot s) ess \<and> r = GetPackages_pm_run sv g s ess)"

section \<open>The resolver of the Dockerfile version\<close>

text \<open>\<^verbatim>\<open>filteredPackages\<close> as built in lines 672--703.\<close>

definition filteredPackages_df :: "'a catalogs_df_scheme \<Rightarrow> bool \<Rightarrow> System \<Rightarrow> VersionMap list" where
  "filteredPackages_df g TrustedBoot s =
    [ lookup (BasePackages g) (OfDistro (Distro s)) ArchCommon,
      lookup (BasePackages g) (OfFamily (Family s)) ArchCommon,
      lookup (BasePackages g) (OfDistro (Distro s)) (Arch s),
      lookup (BasePackages g) (OfFamily (Family s)) (Arch s) ]
    @ (if TrustedBoot
       then [ lookup (KernelPackagesTrustedBoot g) (OfDistro (Distro s)) ArchCommon,
              lookup (KernelPackagesTrustedBoot g) (OfFamily (Family s)) ArchCommon,
              lookup (KernelPackagesTrustedBoot g) (OfDistro (Distro s)) (Arch s),
              lookup (KernelPackagesTrustedBoot g) (OfFamily (Family s)) (Arch s),
              lookup (SystemdPackages g) (OfDistro (Distro s)) ArchCommon,
              lookup (SystemdPackages g) (OfFamily (Family s)) ArchCommon,
              lookup (SystemdPackages g) (OfDistro (Distro s)) (Arch s),
              lookup (SystemdPackages g) (OfFamily (Family s)) (Arch s) ]
       else [ lookup (KernelPackages g) (OfDistro (Distro s)) ArchCommon,
              lookup (KernelPackages g) (OfFamily (Family s)) ArchCommon,
              lookup (KernelPackages g) (OfDistro (Distro s)) (Arch s),
              lookup (KernelPackages g) (OfFamily (Family s)) (Arch s),
              lookup (GrubPackages g) (OfDistro (Distro s)) ArchCommon,
              lookup (GrubPackages g) (OfFamily (Family s)) ArchCommon,
              lookup (GrubPackages g) (OfDistro (Distro s)) (Arch s),
              lookup (GrubPackages g) (OfFamily (Family s)) (Arch s),
              lookup (ImmucorePackages g) (OfDistro (Distro s)) ArchCommon,
              lookup (ImmucorePackages g) (OfFamily (Family s)) ArchCommon,
              lookup (ImmucorePackages g) (OfDistro (Distro s)) (Arch s),
              lookup (ImmucorePackages g) (OfFamily (Family s)) (Arch s) ])"

text \<open>
  One run of \<^verbatim>\<open>FilterPackagesOnConstraint\<close> (lines 711--741) whose map iterations visit
  the entries in the orders \<open>ess\<close>. The function returns no error: when the version does
  not parse it returns the nil slice.
\<close>

definition FilterPackagesOnConstraint_run ::
  "('v, 'c) semver \<Rightarrow> System \<Rightarrow> VersionMap list \<Rightarrow> string list \<times> log_event list" where
  "FilterPackagesOnConstraint_run sv s ess =
    (let pkgs = []
     in case NewVersion sv (Version s) of
          None \<Rightarrow> (pkgs, [])
        | Some systemVersion \<Rightarrow> range_filteredPackages sv systemVersion ess (pkgs, []))"

text \<open>One run of \<^verbatim>\<open>GetPackages\<close> (lines 668--708); the error returned is always nil.\<close>

definition GetPackages_df_run ::
  "('v, 'c) semver \<Rightarrow> 'a catalogs_df_scheme \<Rightarrow> System \<Rightarrow> VersionMap list
    \<Rightarrow> (error + string list) \<times> log_event list" where
  "GetPackages_df_run sv g s ess =
    (let mergedPkgs = CommonPackages g
     in case FilterPackagesOnConstraint_run sv s ess of
          (pkgs, lg) \<Rightarrow> (Inr (mergedPkgs @ pkgs), lg))"

text \<open>
\<^verbatim>\<open>GetPackages\<close>: the outcomes of all runs.
\<close>

definition GetPackages_df ::
  "('v, 'c) semver \<Rightarrow> 'a catalogs_df_scheme \<Rightarrow> bool \<Rightarrow> System
    \<Rightarrow> (error + string list) \<times> log_event list \<Rightarrow> bool" where
  "GetPackages_df sv g TrustedBoot s r \<longleftrightarrow>
    (\<exists>ess. range_orders (filteredPackages_df g TrustedBoot s) ess \<and> r = GetPackages_df_run sv g s ess)"

section \<open>Template expansion\<close>




subsection \<open>The engine with its default options\<close>



definition is_space :: "char \<Rightarrow> bool" where
  "is_space c \<longleftrightarrow> c = CHR '' ''"

definition trim_space :: "string \<Rightarrow> string" where
  "trim_space s = rev (dropWhile is_space (rev (dropWhile is_space s)))"









section \<open>The version constraint evaluator\<close>

text \<open>
  Modelled from the spec: the evaluator is the library \<^verbatim>\<open>hashicorp/go-version\<close>
  (\<^verbatim>\<open>NewVersion\<close>, \<^verbatim>\<open>NewConstraint\<close>, \<^verbatim>\<open>Constraints.Check\<close>), whose source is not in the
  repository. Section 4.1 of the spec: a constraint is a comma-conjoined list of clauses,
  each an operator (exact equality, written \<^verbatim>\<open>=\<close> or left out, \<^verbatim>\<open>>=\<close>, \<^verbatim>\<open><=\<close>, \<^verbatim>\<open>!=\<close>)
  and a version; all clauses must hold; partial versions such as \<^verbatim>\<open>24.10\<close> are
  supported. A version is a dotted sequence of decimal numbers; missing segments count
  as zero. Pre-release and build suffixes are outside the model.
\<close>

definition digit_of :: "char \<Rightarrow> nat option" where
  "digit_of =
    map_of [(CHR ''0'', 0), (CHR ''1'', 1), (CHR ''2'', 2), (CHR ''3'', 3), (CHR ''4'', 4),
            (CHR ''5'', 5), (CHR ''6'', 6), (CHR ''7'', 7), (CHR ''8'', 8), (CHR ''9'', 9)]"

fun number_of :: "string \<Rightarrow> nat \<Rightarrow> nat option" where
  "number_of [] n = Some n"
| "number_of (c # cs) n =
    (case digit_of c of None \<Rightarrow> None | Some d \<Rightarrow> number_of cs (10 * n + d))"

definition parse_segment :: "string \<Rightarrow> nat option" where
  "parse_segment s = (if s = [] then None else number_of s 0)"

fun split_on :: "char \<Rightarrow> string \<Rightarrow> string list" where
  "split_on sep [] = [ []]"
| "split_on sep (c # cs) =
    (let r = split_on sep cs
     in if c = sep then [] # r else (c # hd r) # tl r)"

definition go_NewVersion :: "string \<Rightarrow> nat list option" where
  "go_NewVersion s =
    map_option (\<lambda>segments. segments @ replicate (3 - length segments) 0)
      (those (map parse_segment (split_on CHR ''.'' s)))"

datatype operator = Equal | NotEqual | GreaterThanEqual | LessThanEqual

definition parse_single :: "string \<Rightarrow> (operator \<times> nat list) option" where
  "parse_single clause =
    (let t = trim_space clause
     in if take 2 t = ''>='' then map_option (Pair GreaterThanEqual) (go_NewVersion (trim_space (drop 2 t)))
        else if take 2 t = ''<='' then map_option (Pair LessThanEqual) (go_NewVersion (trim_space (drop 2 t)))
        else if take 2 t = ''!='' then map_option (Pair NotEqual) (go_NewVersion (trim_space (drop 2 t)))
        else if take 1 t = ''='' then map_option (Pair Equal) (go_NewVersion (trim_space (drop 1 t)))
        else map_option (Pair Equal) (go_NewVersion t))"

definition go_NewConstraint :: "string \<Rightarrow> (operator \<times> nat list) list option" where
  "go_NewConstraint s = those (map parse_single (split_on CHR '','' s))"

text \<open>Three-way comparison of segment lists: \<open>-1\<close>, \<open>0\<close> or \<open>1\<close>.\<close>

fun compare :: "nat list \<Rightarrow> nat list \<Rightarrow> int" where
  "compare [] [] = 0"
| "compare (x # xs) [] = (if 0 < x then 1 else compare xs [])"
| "compare [] (y # ys) = (if 0 < y then - 1 else compare [] ys)"
| "compare (x # xs) (y # ys) = (if x < y then - 1 else if y < x then 1 else compare xs ys)"

fun check_single :: "operator \<times> nat list \<Rightarrow> nat list \<Rightarrow> bool" where
  "check_single (Equal, c) v \<longleftrightarrow> compare v c = 0"
| "check_single (NotEqual, c) v \<longleftrightarrow> compare v c \<noteq> 0"
| "check_single (GreaterThanEqual, c) v \<longleftrightarrow> compare v c \<ge> 0"
| "check_single (LessThanEqual, c) v \<longleftrightarrow> compare v c \<le> 0"

definition go_Check :: "(operator \<times> nat list) list \<Rightarrow> nat list \<Rightarrow> bool" where
  "go_Check cs v \<longleftrightarrow> list_all (\<lambda>c. check_single c v) cs"

text \<open>
  The text of a version as the log shows it: the segments in decimal, joined by dots.
\<close>

definition digit_char :: "nat \<Rightarrow> char" where
  "digit_char d = ''0123456789'' ! d"

fun decimal :: "nat \<Rightarrow> string" where
  "decimal n = (if n < 10 then [digit_char n] else decimal (n div 10) @ [digit_char (n mod 10)])"

fun join_dots :: "string list \<Rightarrow> string" where
  "join_dots [] = []"
| "join_dots [s] = s"
| "join_dots (s # t # ts) = s @ ''.'' @ join_dots (t # ts)"

definition go_String :: "nat list \<Rightarrow> string" where
  "go_String v = join_dots (map decimal v)"

definition go_version :: "(nat list, (operator \<times> nat list) list) semver" where
  "go_version = \<lparr>NewVersion = go_NewVersion, NewConstraint = go_NewConstraint,
                  Check = go_Check, VersionString = go_String\<rparr>"

section \<open>The catalogs of packagemaps.go\<close>

text \<open>
  The literals of lines 27--353, comments dropped. \<^verbatim>\<open>RpiPackages\<close> (lines 357--365) is read
  by no function of the file and is left out.
\<close>

definition CommonPackages_pm :: "string list" where
  "CommonPackages_pm =
    [''file'', ''gawk'', ''iptables'', ''less'', ''nano'', ''sudo'', ''tar'',
     ''zstd'', ''rsync'', ''systemd'', ''dbus'', ''lvm2'', ''jq'',
     ''dosfstools'', ''e2fsprogs'', ''parted'']"

definition ImmucorePackages_pm :: PackageMap where
  "ImmucorePackages_pm =
   [
    (OfFamily DebianFamily, [
      (ArchCommon, [
        (Common,
         [''dracut'', ''dracut-network'', ''isc-dhcp-common'',
          ''isc-dhcp-client'', ''systemd-sysv'', ''cloud-guest-utils''])])]),
    (OfDistro Ubuntu, [
      (ArchAMD64, [
        (''>=22.04'',
         [''dracut-live''])])]),
    (OfDistro Debian, [
      (ArchAMD64, [
        (Common,
         [''dracut-live''])])]),
    (OfFamily RedHatFamily, [
      (ArchAMD64, [
        (Common,
         [''dracut'', ''dracut-live'', ''dracut-network'', ''dracut-squash'',
          ''squashfs-tools'', ''dhcp-client''])])])]"

definition KernelPackages_pm :: PackageMap where
  "KernelPackages_pm =
   [
    (OfDistro Ubuntu, [
      (ArchAMD64, [
        (''>=20.04, != 24.10'',
         [''linux-image-generic-hwe-{{.version}}'']),
        (''24.10'',
         [''linux-image-generic-hwe-24.04''])])]),
    (OfDistro Debian, [
      (ArchAMD64, [
        (Common,
         [''linux-image-amd64'', ''firmware-linux-free''])]),
      (ArchARM64, [
        (Common,
         [''linux-image-arm64'', ''firmware-linux-free''])])]),
    (OfFamily RedHatFamily, [
      (ArchCommon, [
        (Common,
         [''kernel'', ''kernel-modules'', ''kernel-modules-extra''])])])]"

definition BasePackages_pm :: PackageMap where
  "BasePackages_pm =
   [
    (OfFamily DebianFamily, [
      (ArchCommon, [
        (Common,
         [''ca-certificates'', ''curl'', ''binutils'', ''conntrack'',
          ''console-setup'', ''coreutils'', ''cryptsetup'', ''debianutils'',
          ''ethtool'', ''fuse3'', ''gdisk'', ''gnupg'', ''gnupg1-l10n'',
          ''haveged'', ''iproute2'', ''iptables'', ''iputils-ping'',
          ''krb5-locales'', ''libatm1'', ''libglib2.0-data'', ''libgpm2'',
          ''libldap-common'', ''libnss-systemd'', ''libpam-cap'',
          ''libsasl2-modules'', ''mdadm'', ''nbd-client'', ''ncurses-term'',
          ''neovim'', ''nfs-common'', ''nftables'', ''open-iscsi'',
          ''openssh-server'', ''open-vm-tools'', ''os-prober'', ''patch'',
          ''pigz'', ''pkg-config'', ''psmisc'', ''publicsuffix'',
          ''python3-pynvim'', ''shared-mime-info'', ''snapd'',
          ''systemd-timesyncd'', ''xauth'', ''xclip'', ''xdg-user-dirs'',
          ''xxd'', ''xz-utils'', ''zerofree'']),
        (''bookworm'',
         [''systemd-cryptsetup'']),
        (''testing'',
         [''systemd-cryptsetup''])])]),
    (OfFamily SUSEFamily, [
      (ArchCommon, [
        (Common,
         [''curl''])])]),
    (OfFamily ArchFamily, [
      (ArchCommon, [
        (Common,
         [''curl''])])]),
    (OfFamily AlpineFamily, [
      (ArchCommon, [
        (Common,
         [''curl''])])]),
    (OfDistro Debian, [
      (ArchCommon, [
        (Common,
         [''systemd-resolved'', ''nohang'', ''polkitd''])])]),
    (OfDistro Ubuntu, [
      (ArchCommon, [
        (Common,
         [''fdisk'', ''conntrack'', ''console-data'', ''cloud-guest-utils'',
          ''gettext'', ''systemd-container'', ''ubuntu-advantage-tools'',
          ''tpm2-tools'', ''dmsetup'', ''networkd-dispatcher'',
          ''packagekit-tools'', ''publicsuffix'', ''xdg-user-dirs'',
          ''zfsutils-linux'']),
        (''>=24.04'',
         [''systemd-resolved''])])]),
    (OfFamily RedHatFamily, [
      (ArchCommon, [
        (Common,
         [''gdisk'', ''audit'', ''cracklib-dicts'', ''cloud-utils-growpart'',
          ''device-mapper'', ''openssh-server'', ''openssh-clients'',
          ''polkit'', ''qemu-guest-agent'', ''systemd-resolved'', ''which'',
          ''cryptsetup''])])]),
    (OfDistro Fedora, [
      (ArchCommon, [
        (Common,
         [''haveged'', ''systemd-networkd''])])])]"

definition GrubPackages_pm :: PackageMap where
  "GrubPackages_pm =
   [
    (OfFamily DebianFamily, [
      (ArchAMD64, [
        (Common,
         [''grub2'', ''grub-efi-amd64-bin'', ''grub-efi-amd64-signed'',
          ''grub-pc-bin'', ''grub2-common'', ''kbd'', ''lldpd'',
          ''shim-signed'', ''snmpd'', ''squashfs-tools''])]),
      (ArchARM64, [
        (Common,
         [''grub-efi-arm64'', ''grub-efi-arm64-bin'', ''grub-efi-arm64-signed''])])]),
    (OfFamily RedHatFamily, [
      (ArchCommon, [
        (Common,
         [''grub2''])]),
      (ArchAMD64, [
        (Common,
         [''grub2-efi-x64'', ''grub2-efi-x64-modules'', ''grub2-pc'',
          ''shim-x64''])]),
      (ArchARM64, [
        (Common,
         [''grub2-efi-aa64'', ''grub2-efi-aa64-modules'', ''shim-aa64''])])])]"

definition SystemdPackages_pm :: PackageMap where
  "SystemdPackages_pm =
   [
    (OfDistro Ubuntu, [
      (ArchCommon, [
        (Common,
         [''systemd'']),
        (''>=24.04'',
         [''iucode-tool'', ''kmod'', ''linux-base'', ''systemd-boot''])])])]"

definition globals_pm :: catalogs where
  "globals_pm = \<lparr>CommonPackages = CommonPackages_pm,
                  ImmucorePackages = ImmucorePackages_pm,
                  KernelPackages = KernelPackages_pm,
                  BasePackages = BasePackages_pm,
                  GrubPackages = GrubPackages_pm,
                  SystemdPackages = SystemdPackages_pm\<rparr>"

section \<open>The catalogs of the Dockerfile version\<close>

text \<open>
  The literals of lines 50--597, comments dropped. \<^verbatim>\<open>RpiPackages\<close> (lines 603--645) is read
  by no function of the file and is left out.
\<close>

definition CommonPackages_df :: "string list" where
  "CommonPackages_df =
    [''file'', ''gawk'', ''iptables'', ''less'', ''nano'', ''sudo'', ''tar'',
     ''zstd'', ''rsync'', ''lvm2'', ''jq'', ''dosfstools'', ''e2fsprogs'',
     ''parted'']"

definition ImmucorePackages_df :: PackageMap where
  "ImmucorePackages_df =
   [
    (OfFamily DebianFamily, [
      (ArchCommon, [
        (Common,
         [''dracut'', ''dracut-network'', ''isc-dhcp-common'',
          ''isc-dhcp-client'', ''cloud-guest-utils''])])]),
    (OfDistro Ubuntu, [
      (ArchCommon, [
        (''>=22.04'',
         [''dracut-live''])])]),
    (OfDistro Debian, [
      (ArchCommon, [
        (Common,
         [''dracut-live''])])]),
    (OfFamily RedHatFamily, [
      (ArchCommon, [
        (Common,
         [''dracut'', ''dracut-live'', ''dracut-network'', ''dracut-squash'',
          ''squashfs-tools'', ''dhcp-client''])])]),
    (OfFamily SUSEFamily, [
      (ArchCommon, [
        (Common,
         [''dracut'', ''squashfs'', ''dhcp-client''])])])]"

definition KernelPackages_df :: PackageMap where
  "KernelPackages_df =
   [
    (OfDistro Ubuntu, [
      (ArchCommon, [
        (''>=20.04, != 24.10'',
         [''linux-image-generic-hwe-{{.version}}'']),
        (''24.10'',
         [''linux-image-generic-hwe-24.04''])])]),
    (OfDistro Debian, [
      (ArchAMD64, [
        (Common,
         [''linux-image-amd64'', ''firmware-linux-free''])]),
      (ArchARM64, [
        (Common,
         [''linux-image-arm64'', ''firmware-linux-free''])])]),
    (OfFamily RedHatFamily, [
      (ArchCommon, [
        (Common,
         [''kernel'', ''kernel-modules'', ''kernel-modules-extra''])])]),
    (OfFamily AlpineFamily, [
      (ArchCommon, [
        (Common,
         [''linux-lts''])])]),
    (OfFamily SUSEFamily, [
      (ArchCommon, [
        (Common,
         [''kernel-default''])])])]"

definition KernelPackagesTrustedBoot_df :: PackageMap where
  "KernelPackagesTrustedBoot_df =
   [
    (OfDistro Debian, [
      (ArchAMD64, [
        (Common,
         [''linux-image-amd64'', ''firmware-linux-free''])]),
      (ArchARM64, [
        (Common,
         [''linux-image-arm64'', ''firmware-linux-free''])])]),
    (OfFamily RedHatFamily, [
      (ArchCommon, [
        (Common,
         [''kernel'', ''kernel-modules'', ''kernel-modules-extra''])])]),
    (OfFamily AlpineFamily, [
      (ArchCommon, [
        (Common,
         [''linux-lts''])])]),
    (OfFamily SUSEFamily, [
      (ArchCommon, [
        (Common,
         [''kernel-default''])])])]"

definition BasePackages_df :: PackageMap where
  "BasePackages_df =
   [
    (OfFamily DebianFamily, [
      (ArchCommon, [
        (Common,
         [''ca-certificates'', ''curl'', ''binutils'', ''conntrack'',
          ''console-setup'', ''coreutils'', ''cryptsetup'', ''debianutils'',
          ''ethtool'', ''fuse3'', ''gdisk'', ''gnupg'', ''gnupg1-l10n'',
          ''haveged'', ''iproute2'', ''iptables'', ''iputils-ping'',
          ''krb5-locales'', ''libatm1'', ''libglib2.0-data'', ''libgpm2'',
          ''libldap-common'', ''libnss-systemd'', ''libpam-cap'',
          ''libsasl2-modules'', ''mdadm'', ''nbd-client'', ''ncurses-term'',
          ''neovim'', ''nfs-common'', ''nftables'', ''open-iscsi'',
          ''openssh-server'', ''open-vm-tools'', ''os-prober'', ''patch'',
          ''pigz'', ''pkg-config'', ''psmisc'', ''publicsuffix'',
          ''python3-pynvim'', ''shared-mime-info'', ''snapd'', ''systemd'',
          ''systemd-timesyncd'', ''systemd-sysv'', ''xauth'', ''xclip'',
          ''xdg-user-dirs'', ''xxd'', ''xz-utils'', ''zerofree''])])]),
    (OfFamily SUSEFamily, [
      (ArchCommon, [
        (Common,
         [''curl'', ''bash-completion'', ''conntrack-tools'', ''cryptsetup'',
          ''coreutils'', ''device-mapper'', ''fail2ban'', ''findutils'',
          ''growpart'', ''gptfdisk'', ''haveged'', ''htop'', ''iproute2'',
          ''iputils'', ''issue-generator'', ''logrotate'', ''lsscsi'',
          ''mdadm'', ''multipath-tools'', ''open-iscsi'', ''openssh'',
          ''open-vm-tools'', ''pigz'', ''policycoreutils'', ''polkit'',
          ''procps'', ''qemu-guest-agent'', ''strace'', ''systemd'',
          ''systemd-network'', ''timezone'', ''tmux'', ''vim'', ''which'',
          ''tpm2*''])])]),
    (OfFamily AlpineFamily, [
      (ArchCommon, [
        (Common,
         [''curl'', ''bash'', ''bash-completion'', ''blkid'',
          ''cloud-utils-growpart'', ''bonding'', ''bridge'',
          ''busybox-openrc'', ''ca-certificates'', ''connman'',
          ''conntrack-tools'', ''coreutils'', ''cryptsetup'',
          ''device-mapper-udev'', ''dbus'', ''dmidecode'', ''dosfstools'',
          ''e2fsprogs'', ''e2fsprogs-extra'', ''efibootmgr'', ''eudev'',
          ''eudev-hwids'', ''fail2ban'', ''findutils'', ''findmnt'',
          ''gcompat'', ''gettext'', ''haveged'', ''htop'', ''hvtools'',
          ''iproute2'', ''irqbalance'', ''iscsi-scst'', ''kbd-bkeymaps'',
          ''libc6-compat'', ''libusb'', ''lm-sensors'', ''logrotate'',
          ''lsscsi'', ''lvm2-extra'', ''mdadm'', ''mdadm-misc'',
          ''mdadm-udev'', ''multipath-tools'', ''ncurses'',
          ''ncurses-terminfo'', ''nfs-utils'', ''open-iscsi'', ''openrc'',
          ''openssh-client'', ''openssh-server'', ''open-vm-tools'',
          ''open-vm-tools-deploypkg'', ''open-vm-tools-guestinfo'',
          ''open-vm-tools-static'', ''open-vm-tools-vmbackup'', ''procps'',
          ''qemu-guest-agent'', ''rbd-nbd'', ''sgdisk'', ''smartmontools'',
          ''squashfs-tools'', ''strace'', ''tzdata'', ''util-linux'', ''vim'',
          ''which'', ''wireguard-tools'', ''wpa_supplicant'', ''xfsprogs'',
          ''xfsprogs-extra'', ''xz''])])]),
    (OfFamily RedHatFamily, [
      (ArchCommon, [
        (Common,
         [''gdisk'', ''audit'', ''cracklib-dicts'', ''cloud-utils-growpart'',
          ''device-mapper'', ''openssh-server'', ''openssh-clients'',
          ''polkit'', ''qemu-guest-agent'', ''systemd'', ''systemd-resolved'',
          ''which'', ''cryptsetup''])])]),
    (OfDistro Debian, [
      (ArchCommon, [
        (Common,
         [''systemd-resolved'', ''nohang'', ''polkitd'']),
        (''>=13'',
         [''systemd-cryptsetup''])])]),
    (OfDistro Ubuntu, [
      (ArchCommon, [
        (Common,
         [''fdisk'', ''conntrack'', ''console-data'', ''cloud-guest-utils'',
          ''gettext'', ''systemd-container'', ''ubuntu-advantage-tools'',
          ''tpm2-tools'', ''dmsetup'', ''networkd-dispatcher'',
          ''packagekit-tools'', ''publicsuffix'', ''xdg-user-dirs'',
          ''zfsutils-linux'']),
        (''>=24.04'',
         [''systemd-resolved''])])]),
    (OfDistro Fedora, [
      (ArchCommon, [
        (Common,
         [''haveged'', ''systemd-networkd''])])])]"

definition GrubPackages_df :: PackageMap where
  "GrubPackages_df =
   [
    (OfFamily DebianFamily, [
      (ArchCommon, [
        (Common,
         [''kbd'', ''lldpd'', ''shim-signed'', ''snmpd'', ''squashfs-tools''])]),
      (ArchAMD64, [
        (Common,
         [''grub2'', ''grub-efi-amd64-bin'', ''grub-efi-amd64-signed'',
          ''grub-pc-bin'', ''grub2-common''])]),
      (ArchARM64, [
        (Common,
         [''grub-efi-arm64'', ''grub-efi-arm64-bin'', ''grub-efi-arm64-signed''])])]),
    (OfFamily RedHatFamily, [
      (ArchCommon, [
        (Common,
         [''grub2''])]),
      (ArchAMD64, [
        (Common,
         [''grub2-efi-x64'', ''grub2-efi-x64-modules'', ''grub2-pc'',
          ''shim-x64''])]),
      (ArchARM64, [
        (Common,
         [''grub2-efi-aa64'', ''grub2-efi-aa64-modules'', ''shim-aa64''])])]),
    (OfFamily AlpineFamily, [
      (ArchAMD64, [
        (Common,
         [''grub-bios''])]),
      (ArchCommon, [
        (Common,
         [''grub'', ''grub-efi''])])]),
    (OfFamily SUSEFamily, [
      (ArchCommon, [
        (Common,
         [''nethogs'', ''patch'', ''shim'', ''iw''])]),
      (ArchAMD64, [
        (Common,
         [''grub2-i386-pc'', ''grub2-x86_64-efi'', ''kernel-firmware-all''])]),
      (ArchARM64, [
        (Common,
         [''bcm43xx-firmware'', ''grub2-arm64-efi'',
          ''kernel-firmware-ath10k'', ''kernel-firmware-ath11k'',
          ''kernel-firmware-atheros'', ''kernel-firmware-bluetooth'',
          ''kernel-firmware-brcm'', ''kernel-firmware-iwlwifi'',
          ''kernel-firmware-network'', ''kernel-firmware-realtek'',
          ''kernel-firmware-serial'', ''kernel-firmware-usb-network''])])]),
    (OfDistro Ubuntu, [
      (ArchCommon, [
        (Common,
         [''zfsutils-linux''])])])]"

definition SystemdPackages_df :: PackageMap where
  "SystemdPackages_df =
   [
    (OfDistro Ubuntu, [
      (ArchCommon, [
        (Common,
         [''systemd'']),
        (''>=24.04'',
         [''iucode-tool'', ''kmod'', ''linux-base'', ''systemd-boot''])])])]"

definition globals_df :: catalogs_df where
  "globals_df = \<lparr>CommonPackages = CommonPackages_df,
                  ImmucorePackages = ImmucorePackages_df,
                  KernelPackages = KernelPackages_df,
                  BasePackages = BasePackages_df,
                  GrubPackages = GrubPackages_df,
                  SystemdPackages = SystemdPackages_df,
                  KernelPackagesTrustedBoot = KernelPackagesTrustedBoot_df\<rparr>"

section \<open>Derived notions\<close>

text \<open>
  What one entry of a version map adds: its package list when the key is \<open>Common\<close> or
  a constraint that parses and holds of the version, nothing otherwise.
\<close>

definition applies :: "('v, 'c) semver \<Rightarrow> 'v \<Rightarrow> string \<Rightarrow> bool" where
  "applies sv v constraint \<longleftrightarrow>
     constraint = Common \<or>
     (case NewConstraint sv constraint of None \<Rightarrow> False | Some c \<Rightarrow> Check sv c v)"

definition entry_packages ::
  "('v, 'c) semver \<Rightarrow> 'v \<Rightarrow> string \<times> string list \<Rightarrow> string list" where
  "entry_packages sv v e = (if applies sv v (fst e) then snd e else [])"

definition entry_log ::
  "('v, 'c) semver \<Rightarrow> 'v \<Rightarrow> string \<times> string list \<Rightarrow> log_event list" where
  "entry_log sv v e =
     LogDebug [Str ''constraint'' (fst e), Str ''version'' (VersionString sv v)]
              ''Checking constraint''
     # (if fst e = Common
        then [LogDebug [Strs ''packages'' (snd e)] ''Adding common packages'']
        else case NewConstraint sv (fst e) of
               None \<Rightarrow> [LogError [Err, Str ''constraint'' (fst e)] ''Error parsing constraint.'']
             | Some c \<Rightarrow>
                 if Check sv c v
                 then [LogDebug [Strs ''packages'' (snd e)] ''Constraint matches, adding packages'']
                 else [])"

text \<open>The packages and the log records that visiting the entries \<open>ess\<close> produces.\<close>

definition contribution :: "('v, 'c) semver \<Rightarrow> 'v \<Rightarrow> VersionMap list \<Rightarrow> string list" where
  "contribution sv v ess = concat (map (entry_packages sv v) (concat ess))"

definition messages :: "('v, 'c) semver \<Rightarrow> 'v \<Rightarrow> VersionMap list \<Rightarrow> log_event list" where
  "messages sv v ess = concat (map (entry_log sv v) (concat ess))"

text \<open>A constraint key that is not the sentinel and does not parse.\<close>

definition malformed :: "('v, 'c) semver \<Rightarrow> string \<Rightarrow> bool" where
  "malformed sv constraint \<longleftrightarrow> constraint \<noteq> Common \<and> NewConstraint sv constraint = None"

text \<open>The four lookups of one catalog for a system, in the order both resolvers use.\<close>

definition axis_lookups :: "PackageMap \<Rightarrow> System \<Rightarrow> VersionMap list" where
  "axis_lookups pm s =
    [ lookup pm (OfDistro (Distro s)) ArchCommon,
      lookup pm (OfFamily (Family s)) ArchCommon,
      lookup pm (OfDistro (Distro s)) (Arch s),
      lookup pm (OfFamily (Family s)) (Arch s) ]"

text \<open>
  The catalogs each resolver looks up after \<^verbatim>\<open>CommonPackages\<close>, in order, for a boot mode.
\<close>

definition selected_pm :: "'a catalogs_scheme \<Rightarrow> bool \<Rightarrow> PackageMap list" where
  "selected_pm g tb =
     [BasePackages g, KernelPackages g]
     @ (if tb then [SystemdPackages g] else [GrubPackages g, ImmucorePackages g])"

definition selected_df :: "'a catalogs_df_scheme \<Rightarrow> bool \<Rightarrow> PackageMap list" where
  "selected_df g tb =
     BasePackages g
     # (if tb then [KernelPackagesTrustedBoot g, SystemdPackages g]
        else [KernelPackages g, GrubPackages g, ImmucorePackages g])"

text \<open>
  The list a call returned; the nil slice when it returned an error.
\<close>

definition packages_of :: "error + string list \<Rightarrow> string list" where
  "packages_of r = (case r of Inl e \<Rightarrow> [] | Inr pkgs \<Rightarrow> pkgs)"


text \<open>
  The keys of a map literal are pairwise distinct, at each of the three levels of a catalog.
\<close>

definition distinct_keys :: "PackageMap \<Rightarrow> bool" where
  "distinct_keys pm \<longleftrightarrow>
     distinct (map fst pm) \<and>
     list_all (\<lambda>(k, am). distinct (map fst am) \<and>
                 list_all (\<lambda>(a, vm). distinct (map fst vm)) am) pm"

text \<open>
  Every package named in the entries of a list of version maps, applicable or not.
\<close>

definition all_packages :: "VersionMap list \<Rightarrow> string set" where
  "all_packages ms = (\<Union>e \<in> set (concat ms). set (snd e))"



subsection \<open>Example inputs\<close>

definition debian_testing :: System where
  "debian_testing = \<lparr>Distro = Debian, Family = DebianFamily, Arch = ArchAMD64,
                       Version = ''testing''\<rparr>"

definition debian_12 :: System where
  "debian_12 = \<lparr>Distro = Debian, Family = DebianFamily, Arch = ArchAMD64, Version = ''12''\<rparr>"

definition ubuntu_2404 :: System where
  "ubuntu_2404 = \<lparr>Distro = Ubuntu, Family = DebianFamily, Arch = ArchAMD64,
                    Version = ''24.04''\<rparr>"

definition ubuntu_2410 :: System where
  "ubuntu_2410 = \<lparr>Distro = Ubuntu, Family = DebianFamily, Arch = ArchAMD64,
                    Version = ''24.10''\<rparr>"





section \<open>The loops in closed form\<close>

lemma range_packages_eq:
  "range_packages sv v es (pkgs, lg) =
     (pkgs @ concat (map (entry_packages sv v) es), lg @ concat (map (entry_log sv v) es))"
proof (induction es arbitrary: pkgs lg)
  case Nil
  show ?case by simp
next
  case (Cons e es)
  obtain c vals where e: "e = (c, vals)" by (cases e)
  show ?case
    unfolding e
    by (simp add: Cons.IH entry_packages_def entry_log_def applies_def Let_def
        split: option.split)
qed

lemma range_filteredPackages_eq:
  "range_filteredPackages sv v ess (pkgs, lg) =
     (pkgs @ contribution sv v ess, lg @ messages sv v ess)"
proof (induction ess arbitrary: pkgs lg)
  case Nil
  show ?case by (simp add: contribution_def messages_def)
next
  case (Cons es ess)
  show ?case
    by (simp add: range_packages_eq Cons.IH contribution_def messages_def)
qed

lemma GetPackages_pm_run_eq:
  "GetPackages_pm_run sv g s ess =
     (case NewVersion sv (Version s) of
        None \<Rightarrow> (Inl VersionParseError, [])
      | Some v \<Rightarrow> (Inr (CommonPackages g @ contribution sv v ess), messages sv v ess))"
  by (simp add: GetPackages_pm_run_def range_filteredPackages_eq split: option.split)

lemma GetPackages_df_run_eq:
  "GetPackages_df_run sv g s ess =
     (case NewVersion sv (Version s) of
        None \<Rightarrow> (Inr (CommonPackages g), [])
      | Some v \<Rightarrow> (Inr (CommonPackages g @ contribution sv v ess), messages sv v ess))"
  by (simp add: GetPackages_df_run_def FilterPackagesOnConstraint_run_def
      range_filteredPackages_eq split: option.split)

lemma contribution_append:
  "contribution sv v (xs @ ys) = contribution sv v xs @ contribution sv v ys"
  by (simp add: contribution_def)



lemma in_contribution:
  assumes "m \<in> set ms" "(c, vals) \<in> set m" "applies sv v c" "p \<in> set vals"
  shows "p \<in> set (contribution sv v ms)"
  using assms by (force simp: contribution_def entry_packages_def)

lemma contribution_memberD:
  assumes "p \<in> set (contribution sv v ms)"
  shows "\<exists>m \<in> set ms. \<exists>e \<in> set m. applies sv v (fst e) \<and> p \<in> set (snd e)"
  using assms by (auto simp: contribution_def entry_packages_def split: if_splits)

lemma contribution_subset_all:
  "set (contribution sv v ms) \<subseteq> all_packages ms"
  by (auto simp: contribution_def entry_packages_def all_packages_def split: if_splits)

lemma entry_packages_malformed:
  "malformed sv (fst e) \<Longrightarrow> entry_packages sv v e = []"
  by (simp add: entry_packages_def applies_def malformed_def)

lemma concat_map_filter_nonempty:
  assumes "\<And>x. \<not> P x \<Longrightarrow> f x = []"
  shows "concat (map f (filter P xs)) = concat (map f xs)"
  using assms by (induction xs) simp_all

lemma contribution_skip_malformed:
  "contribution sv v (map (filter (\<lambda>e. \<not> malformed sv (fst e))) ess) = contribution sv v ess"
proof (induction ess)
  case Nil
  show ?case by simp
next
  case (Cons es ess)
  have "concat (map (entry_packages sv v) (filter (\<lambda>e. \<not> malformed sv (fst e)) es))
        = concat (map (entry_packages sv v) es)"
    by (rule concat_map_filter_nonempty) (simp add: entry_packages_malformed)
  with Cons show ?case by (simp add: contribution_def)
qed

lemma entry_log_in_messages:
  "e \<in> set (concat ess) \<Longrightarrow> set (entry_log sv v e) \<subseteq> set (messages sv v ess)"
  by (auto simp: messages_def)

section \<open>Iteration orders\<close>

lemma range_orders_refl: "range_orders ms ms"
  by (simp add: range_orders_def range_order_def list_all2_same)

lemma range_orders_mset_concat:
  "range_orders ms ess \<Longrightarrow> mset (concat ess) = mset (concat ms)"
  unfolding range_orders_def
  by (induction ms ess rule: list_all2_induct) (simp_all add: range_order_def)

lemma range_orders_set_concat:
  "range_orders ms ess \<Longrightarrow> set (concat ess) = set (concat ms)"
  by (drule range_orders_mset_concat) (rule mset_eq_setD)

lemma mset_concat_map_cong:
  assumes "mset xs = mset ys"
  shows "mset (concat (map f xs)) = mset (concat (map f ys))"
proof -
  have "mset (concat (map f zs)) = sum_mset (image_mset (\<lambda>z. mset (f z)) (mset zs))" for zs
    by (induction zs) simp_all
  with assms show ?thesis by simp
qed

lemma contribution_mset:
  "range_orders ms ess \<Longrightarrow> mset (contribution sv v ess) = mset (contribution sv v ms)"
  unfolding contribution_def
  by (rule mset_concat_map_cong) (rule range_orders_mset_concat)

lemma contribution_set_order:
  "range_orders ms ess \<Longrightarrow> set (contribution sv v ess) = set (contribution sv v ms)"
  by (drule contribution_mset [where sv = sv and v = v]) (rule mset_eq_setD)

lemma range_orders_filter:
  "range_orders ms ess \<Longrightarrow> range_orders (map (filter P) ms) (map (filter P) ess)"
  unfolding range_orders_def
  by (induction ms ess rule: list_all2_induct) (simp_all add: range_order_def)



lemma range_orders_append_split:
  assumes "range_orders (xs @ ys) ess"
  shows "\<exists>e1 e2. ess = e1 @ e2 \<and> range_orders xs e1 \<and> range_orders ys e2"
  using assms unfolding range_orders_def by (auto simp: list_all2_append1)

lemma split_contribution:
  assumes "range_orders (xs @ ys) ess"
  shows "\<exists>a b. contribution sv v ess = a @ b \<and>
               mset a = mset (contribution sv v xs) \<and> mset b = mset (contribution sv v ys)"
proof -
  from assms obtain e1 e2 where e: "ess = e1 @ e2" "range_orders xs e1" "range_orders ys e2"
    by (blast dest: range_orders_append_split)
  have "contribution sv v ess = contribution sv v e1 @ contribution sv v e2"
    by (simp add: e(1) contribution_append)
  moreover have "mset (contribution sv v e1) = mset (contribution sv v xs)"
    using e(2) by (rule contribution_mset)
  moreover have "mset (contribution sv v e2) = mset (contribution sv v ys)"
    using e(3) by (rule contribution_mset)
  ultimately show ?thesis by blast
qed

lemma sublist_concat_map:
  assumes "e \<in> set es"
  shows "sublist (f e) (concat (map f es))"
proof -
  from assms obtain a b where "es = a @ e # b" by (auto dest: split_list)
  then have "concat (map f es) = concat (map f a) @ f e @ concat (map f b)" by simp
  then show ?thesis unfolding sublist_def by blast
qed

lemma common_entry_sublist:
  assumes "range_orders ms ess" "m \<in> set ms" "(Common, vals) \<in> set m"
  shows "sublist vals (pre @ contribution sv v ess)"
proof -
  have "(Common, vals) \<in> set (concat ms)" using assms(2,3) by auto
  then have "(Common, vals) \<in> set (concat ess)"
    using range_orders_set_concat [OF assms(1)] by simp
  then have "sublist (entry_packages sv v (Common, vals)) (contribution sv v ess)"
    unfolding contribution_def by (rule sublist_concat_map)
  then have "sublist vals (contribution sv v ess)"
    by (simp add: entry_packages_def applies_def)
  then show ?thesis unfolding sublist_def by (metis append.assoc)
qed

lemma sublist_contribution:
  assumes "range_orders ms ess" "m \<in> set ms" "(c, vals) \<in> set m" "applies sv v c"
  shows "sublist vals (pre @ contribution sv v ess)"
proof -
  have "(c, vals) \<in> set (concat ms)" using assms(2,3) by auto
  then have "(c, vals) \<in> set (concat ess)"
    using range_orders_set_concat [OF assms(1)] by simp
  then have "sublist (entry_packages sv v (c, vals)) (contribution sv v ess)"
    unfolding contribution_def by (rule sublist_concat_map)
  then have "sublist vals (contribution sv v ess)"
    using assms(4) by (simp add: entry_packages_def)
  then show ?thesis unfolding sublist_def by (metis append.assoc)
qed

lemma declared_order_pm:
  "GetPackages_pm sv g tb s (GetPackages_pm_run sv g s (filteredPackages_pm g tb s))"
  unfolding GetPackages_pm_def using range_orders_refl by blast

lemma declared_order_df:
  "GetPackages_df sv g tb s (GetPackages_df_run sv g s (filteredPackages_df g tb s))"
  unfolding GetPackages_df_def using range_orders_refl by blast

lemma GetPackages_pm_total: "\<exists>r. GetPackages_pm sv g tb s r"
  unfolding GetPackages_pm_def using range_orders_refl by blast

lemma GetPackages_df_total: "\<exists>r. GetPackages_df sv g tb s r"
  unfolding GetPackages_df_def using range_orders_refl by blast



section \<open>The lookups of the resolvers\<close>

lemma lookup_missing:
  assumes "map_of pm k = None \<or> (\<exists>am. map_of pm k = Some am \<and> map_of am a = None)"
  shows "lookup pm k a = []"
  using assms by (auto simp: lookup_def index_PackageMap_def index_ArchMap_def)

lemma filteredPackages_pm_selected:
  "filteredPackages_pm g tb s = concat (map (\<lambda>pm. axis_lookups pm s) (selected_pm g tb))"
  by (simp add: filteredPackages_pm_def selected_pm_def axis_lookups_def)

lemma filteredPackages_df_selected:
  "filteredPackages_df g tb s = concat (map (\<lambda>pm. axis_lookups pm s) (selected_df g tb))"
  by (simp add: filteredPackages_df_def selected_df_def axis_lookups_def)

lemma axis_lookups_in_pm:
  "pm \<in> set (selected_pm g tb) \<Longrightarrow> set (axis_lookups pm s) \<subseteq> set (filteredPackages_pm g tb s)"
  unfolding filteredPackages_pm_selected by auto

lemma axis_lookups_in_df:
  "pm \<in> set (selected_df g tb) \<Longrightarrow> set (axis_lookups pm s) \<subseteq> set (filteredPackages_df g tb s)"
  unfolding filteredPackages_df_selected by auto


lemma filteredPackages_pm_split:
  "filteredPackages_pm g tb s =
     axis_lookups (BasePackages g) s
     @ (axis_lookups (KernelPackages g) s
        @ (if tb then axis_lookups (SystemdPackages g) s
           else axis_lookups (GrubPackages g) s @ axis_lookups (ImmucorePackages g) s))"
  by (simp add: filteredPackages_pm_def axis_lookups_def)

lemma filteredPackages_df_split:
  "filteredPackages_df g tb s =
     axis_lookups (BasePackages g) s
     @ (if tb then axis_lookups (KernelPackagesTrustedBoot g) s @ axis_lookups (SystemdPackages g) s
        else axis_lookups (KernelPackages g) s @ axis_lookups (GrubPackages g) s
             @ axis_lookups (ImmucorePackages g) s)"
  by (simp add: filteredPackages_df_def axis_lookups_def)

lemma drop4_pm:
  "drop 4 (filteredPackages_pm g tb s) =
     axis_lookups (KernelPackages g) s
     @ (if tb then axis_lookups (SystemdPackages g) s
        else axis_lookups (GrubPackages g) s @ axis_lookups (ImmucorePackages g) s)"
  by (simp add: filteredPackages_pm_split) (simp add: axis_lookups_def)

lemma drop4_df:
  "drop 4 (filteredPackages_df g tb s) =
     (if tb then axis_lookups (KernelPackagesTrustedBoot g) s @ axis_lookups (SystemdPackages g) s
      else axis_lookups (KernelPackages g) s @ axis_lookups (GrubPackages g) s
           @ axis_lookups (ImmucorePackages g) s)"
  by (simp add: filteredPackages_df_split) (simp add: axis_lookups_def)

lemma outcome_split_pm:
  assumes "NewVersion sv (Version s) = Some v" "GetPackages_pm sv g tb s r"
  shows "\<exists>base boot. fst r = Inr (CommonPackages g @ base @ boot) \<and>
           mset base = mset (contribution sv v (axis_lookups (BasePackages g) s)) \<and>
           mset boot = mset (contribution sv v (drop 4 (filteredPackages_pm g tb s)))"
proof -
  from assms(2) obtain ess where o: "range_orders (filteredPackages_pm g tb s) ess"
    and r: "r = GetPackages_pm_run sv g s ess"
    unfolding GetPackages_pm_def by blast
  have d: "drop 4 (filteredPackages_pm g tb s) =
        axis_lookups (KernelPackages g) s
        @ (if tb then axis_lookups (SystemdPackages g) s
           else axis_lookups (GrubPackages g) s @ axis_lookups (ImmucorePackages g) s)"
    by (simp add: filteredPackages_pm_split) (simp add: axis_lookups_def)
  from o obtain a b where "contribution sv v ess = a @ b"
    "mset a = mset (contribution sv v (axis_lookups (BasePackages g) s))"
    "mset b = mset (contribution sv v (drop 4 (filteredPackages_pm g tb s)))"
    unfolding d unfolding filteredPackages_pm_split by (blast dest: split_contribution)
  then show ?thesis using assms(1) by (simp add: r GetPackages_pm_run_eq) blast
qed

lemma outcome_split_df:
  assumes "NewVersion sv (Version s) = Some v" "GetPackages_df sv g tb s r"
  shows "\<exists>base boot. fst r = Inr (CommonPackages g @ base @ boot) \<and>
           mset base = mset (contribution sv v (axis_lookups (BasePackages g) s)) \<and>
           mset boot = mset (contribution sv v (drop 4 (filteredPackages_df g tb s)))"
proof -
  from assms(2) obtain ess where o: "range_orders (filteredPackages_df g tb s) ess"
    and r: "r = GetPackages_df_run sv g s ess"
    unfolding GetPackages_df_def by blast
  have d: "drop 4 (filteredPackages_df g tb s) =
        (if tb then axis_lookups (KernelPackagesTrustedBoot g) s @ axis_lookups (SystemdPackages g) s
         else axis_lookups (KernelPackages g) s @ axis_lookups (GrubPackages g) s
              @ axis_lookups (ImmucorePackages g) s)"
    by (simp add: filteredPackages_df_split) (simp add: axis_lookups_def)
  from o obtain a b where "contribution sv v ess = a @ b"
    "mset a = mset (contribution sv v (axis_lookups (BasePackages g) s))"
    "mset b = mset (contribution sv v (drop 4 (filteredPackages_df g tb s)))"
    unfolding d unfolding filteredPackages_df_split by (blast dest: split_contribution)
  then show ?thesis using assms(1) by (simp add: r GetPackages_df_run_eq) blast
qed

lemma filteredPackages_pm_ignores:
  "filteredPackages_pm (g\<lparr>GrubPackages := gr, ImmucorePackages := im\<rparr>) True s
     = filteredPackages_pm g True s"
  by (simp add: filteredPackages_pm_def)

lemma filteredPackages_df_ignores:
  "filteredPackages_df (g\<lparr>KernelPackages := k, GrubPackages := gr, ImmucorePackages := im\<rparr>) True s
     = filteredPackages_df g True s"
  by (simp add: filteredPackages_df_def)

lemma GetPackages_pm_run_ignores:
  "GetPackages_pm_run sv (g\<lparr>GrubPackages := gr, ImmucorePackages := im\<rparr>) s
     = GetPackages_pm_run sv g s"
  by (rule ext) (simp add: GetPackages_pm_run_eq split: option.split)

lemma GetPackages_df_run_ignores:
  "GetPackages_df_run sv (g\<lparr>KernelPackages := k, GrubPackages := gr, ImmucorePackages := im\<rparr>) s
     = GetPackages_df_run sv g s"
  by (rule ext) (simp add: GetPackages_df_run_eq split: option.split)

subsection \<open>A system with the any-architecture key as its architecture\<close>







section \<open>Properties of template expansion\<close>













section \<open>Evaluation on the catalogs\<close>

lemmas go_version_eval =
  go_version_def go_NewVersion_def go_NewConstraint_def go_Check_def parse_single_def
  parse_segment_def digit_of_def trim_space_def is_space_def numeral_2_eq_2 numeral_3_eq_3

lemmas lookup_eval = lookup_def index_PackageMap_def index_ArchMap_def

lemma go_NewVersion_testing: "NewVersion go_version ''testing'' = None"
  by (simp add: go_version_eval)

lemma go_NewVersion_12: "NewVersion go_version ''12'' = Some [12, 0, 0]"
  by (simp add: go_version_eval)


lemma go_NewVersion_2404: "NewVersion go_version ''24.04'' = Some [24, 4, 0]"
  by (simp add: go_version_eval)

lemma go_NewVersion_2410: "NewVersion go_version ''24.10'' = Some [24, 10, 0]"
  by (simp add: go_version_eval)

lemma go_constraint_hwe:
  "NewConstraint go_version ''>=20.04, != 24.10''
     = Some [(GreaterThanEqual, [20, 4, 0]), (NotEqual, [24, 10, 0])]"
  by (simp add: go_version_eval)

lemma applies_hwe_2404: "applies go_version [24, 4, 0] ''>=20.04, != 24.10''"
  by (simp add: applies_def go_constraint_hwe) (simp add: go_version_def go_Check_def)

lemma applies_hwe_2410: "\<not> applies go_version [24, 10, 0] ''>=20.04, != 24.10''"
  by (simp add: applies_def go_constraint_hwe Common_def) (simp add: go_version_def go_Check_def)

lemma applies_exact_2410: "applies go_version [24, 10, 0] ''24.10''"
  by (simp add: applies_def go_version_eval)

lemma bookworm_malformed: "malformed go_version ''bookworm''"
  by (simp add: malformed_def Common_def go_version_eval)

lemma catalogs_pm_distinct_keys:
  "distinct_keys ImmucorePackages_pm \<and> distinct_keys KernelPackages_pm \<and>
   distinct_keys BasePackages_pm \<and> distinct_keys GrubPackages_pm \<and>
   distinct_keys SystemdPackages_pm"
  by (simp add: distinct_keys_def Common_def ImmucorePackages_pm_def KernelPackages_pm_def
      BasePackages_pm_def GrubPackages_pm_def SystemdPackages_pm_def)

lemma catalogs_df_distinct_keys:
  "distinct_keys ImmucorePackages_df \<and> distinct_keys KernelPackages_df \<and>
   distinct_keys KernelPackagesTrustedBoot_df \<and> distinct_keys BasePackages_df \<and>
   distinct_keys GrubPackages_df \<and> distinct_keys SystemdPackages_df"
  by (simp add: distinct_keys_def Common_def ImmucorePackages_df_def KernelPackages_df_def
      KernelPackagesTrustedBoot_df_def BasePackages_df_def GrubPackages_df_def
      SystemdPackages_df_def)

subsection \<open>Debian\<close>

lemma debian_kernel_pm:
  "[(Common, [''linux-image-amd64'', ''firmware-linux-free''])]
     \<in> set (filteredPackages_pm globals_pm tb debian_12)"
proof -
  have "KernelPackages globals_pm \<in> set (selected_pm globals_pm tb)"
    by (simp add: selected_pm_def)
  moreover have "[(Common, [''linux-image-amd64'', ''firmware-linux-free''])]
     \<in> set (axis_lookups (KernelPackages globals_pm) debian_12)"
    by (simp add: axis_lookups_def globals_pm_def debian_12_def lookup_eval KernelPackages_pm_def)
  ultimately show ?thesis using axis_lookups_in_pm by blast
qed

lemma debian_kernel_df:
  "[(Common, [''linux-image-amd64'', ''firmware-linux-free''])]
     \<in> set (filteredPackages_df globals_df False debian_12)"
proof -
  have "KernelPackages globals_df \<in> set (selected_df globals_df False)"
    by (simp add: selected_df_def)
  moreover have "[(Common, [''linux-image-amd64'', ''firmware-linux-free''])]
     \<in> set (axis_lookups (KernelPackages globals_df) debian_12)"
    by (simp add: axis_lookups_def globals_df_def debian_12_def lookup_eval KernelPackages_df_def)
  ultimately show ?thesis using axis_lookups_in_df by blast
qed

lemma debian_12_kernel_gone:
  "''linux-image-amd64'' \<notin> set (contribution go_version [12, 0, 0]
      (filteredPackages_pm (globals_pm\<lparr>KernelPackages := []\<rparr>) True debian_12))"
proof
  assume "''linux-image-amd64'' \<in> set (contribution go_version [12, 0, 0]
      (filteredPackages_pm (globals_pm\<lparr>KernelPackages := []\<rparr>) True debian_12))"
  then obtain m e where m: "m \<in> set (filteredPackages_pm (globals_pm\<lparr>KernelPackages := []\<rparr>) True debian_12)"
    and e: "e \<in> set m" "''linux-image-amd64'' \<in> set (snd e)"
    by (blast dest: contribution_memberD)
  have "filteredPackages_pm (globals_pm\<lparr>KernelPackages := []\<rparr>) True debian_12
        = [lookup BasePackages_pm (OfDistro Debian) ArchCommon,
           lookup BasePackages_pm (OfFamily DebianFamily) ArchCommon,
           [], [], [], [], [], [], [], [], [], []]"
    by (simp add: filteredPackages_pm_def globals_pm_def debian_12_def lookup_eval
        BasePackages_pm_def SystemdPackages_pm_def)
  with m e show False
    by (auto simp: lookup_eval BasePackages_pm_def)
qed

lemma debian_kernel_in_boot_df:
  "[(Common, [''linux-image-amd64'', ''firmware-linux-free''])]
     \<in> set (drop 4 (filteredPackages_df globals_df tb debian_12))"
  by (simp add: drop4_df axis_lookups_def globals_df_def debian_12_def lookup_eval
      KernelPackagesTrustedBoot_df_def KernelPackages_df_def)

lemma debian_kernel_not_base_df:
  "''linux-image-amd64''
     \<notin> set (contribution go_version [12, 0, 0] (axis_lookups (BasePackages globals_df) debian_12))"
proof
  assume "''linux-image-amd64''
     \<in> set (contribution go_version [12, 0, 0] (axis_lookups (BasePackages globals_df) debian_12))"
  then obtain m e where m: "m \<in> set (axis_lookups (BasePackages globals_df) debian_12)"
    and e: "e \<in> set m" "''linux-image-amd64'' \<in> set (snd e)"
    by (blast dest: contribution_memberD)
  have "axis_lookups (BasePackages globals_df) debian_12
        = [lookup BasePackages_df (OfDistro Debian) ArchCommon,
           lookup BasePackages_df (OfFamily DebianFamily) ArchCommon, [], []]"
    by (simp add: axis_lookups_def globals_df_def debian_12_def lookup_eval BasePackages_df_def)
  with m e show False
    by (auto simp: lookup_eval BasePackages_df_def)
qed

lemma bookworm_visited:
  "(''bookworm'', [''systemd-cryptsetup''])
     \<in> set (concat (filteredPackages_pm globals_pm False debian_12))"
  by (simp add: filteredPackages_pm_def globals_pm_def debian_12_def lookup_eval
      BasePackages_pm_def)

subsection \<open>Ubuntu\<close>

lemma filtered_pm_ubuntu_2410:
  "filteredPackages_pm globals_pm tb ubuntu_2410 =
     [lookup BasePackages_pm (OfDistro Ubuntu) ArchCommon,
      lookup BasePackages_pm (OfFamily DebianFamily) ArchCommon,
      [], [], [], [],
      [(''>=20.04, != 24.10'', [''linux-image-generic-hwe-{{.version}}'']),
       (''24.10'', [''linux-image-generic-hwe-24.04''])],
      []]
     @ (if tb then [lookup SystemdPackages_pm (OfDistro Ubuntu) ArchCommon, [], [], []]
        else [ [], [], [], lookup GrubPackages_pm (OfFamily DebianFamily) ArchAMD64,
              [], lookup ImmucorePackages_pm (OfFamily DebianFamily) ArchCommon,
              lookup ImmucorePackages_pm (OfDistro Ubuntu) ArchAMD64, []])"
  by (simp add: filteredPackages_pm_def globals_pm_def ubuntu_2410_def lookup_eval
      BasePackages_pm_def KernelPackages_pm_def SystemdPackages_pm_def GrubPackages_pm_def
      ImmucorePackages_pm_def)

lemma kernel_map_pm_ubuntu_2410:
  "[(''>=20.04, != 24.10'', [''linux-image-generic-hwe-{{.version}}'']),
    (''24.10'', [''linux-image-generic-hwe-24.04''])]
     \<in> set (filteredPackages_pm globals_pm tb ubuntu_2410)"
  unfolding filtered_pm_ubuntu_2410 by simp

lemma hwe_template_absent:
  "''linux-image-generic-hwe-{{.version}}''
     \<notin> set (contribution go_version [24, 10, 0] (filteredPackages_pm globals_pm tb ubuntu_2410))"
proof
  assume "''linux-image-generic-hwe-{{.version}}''
     \<in> set (contribution go_version [24, 10, 0] (filteredPackages_pm globals_pm tb ubuntu_2410))"
  then obtain m e where m: "m \<in> set (filteredPackages_pm globals_pm tb ubuntu_2410)"
    and e: "e \<in> set m" "applies go_version [24, 10, 0] (fst e)"
      "''linux-image-generic-hwe-{{.version}}'' \<in> set (snd e)"
    by (blast dest: contribution_memberD)
  from m e(1,3) have "fst e = ''>=20.04, != 24.10''"
    unfolding filtered_pm_ubuntu_2410
    by (auto simp: lookup_eval BasePackages_pm_def SystemdPackages_pm_def GrubPackages_pm_def
        ImmucorePackages_pm_def split: if_splits)
  with e(2) applies_hwe_2410 show False by simp
qed



lemma ubuntu_df_boot_disjoint:
  assumes "Distro s = Ubuntu" "Family s = DebianFamily"
  shows "all_packages (drop 4 (filteredPackages_df globals_df True s))
         \<inter> all_packages (drop 4 (filteredPackages_df globals_df False s)) = {}"
proof (cases "Arch s")
  case ArchAMD64
  then show ?thesis using assms
    by (simp add: filteredPackages_df_def globals_df_def lookup_eval all_packages_def
      KernelPackagesTrustedBoot_df_def SystemdPackages_df_def KernelPackages_df_def
      GrubPackages_df_def ImmucorePackages_df_def)
next
  case ArchARM64
  then show ?thesis using assms
    by (simp add: filteredPackages_df_def globals_df_def lookup_eval all_packages_def
      KernelPackagesTrustedBoot_df_def SystemdPackages_df_def KernelPackages_df_def
      GrubPackages_df_def ImmucorePackages_df_def)
next
  case ArchCommon
  then show ?thesis using assms
    by (simp add: filteredPackages_df_def globals_df_def lookup_eval all_packages_def
      KernelPackagesTrustedBoot_df_def SystemdPackages_df_def KernelPackages_df_def
      GrubPackages_df_def ImmucorePackages_df_def)
next
  case (OtherArch x)
  then show ?thesis using assms
    by (simp add: filteredPackages_df_def globals_df_def lookup_eval all_packages_def
      KernelPackagesTrustedBoot_df_def SystemdPackages_df_def KernelPackages_df_def
      GrubPackages_df_def ImmucorePackages_df_def)
qed

subsection \<open>Fedora\<close>





section \<open>Claims\<close>

subsection \<open>C1\<close>

text \<open>
  C1 (as stated): a System whose Version does not parse is handled by one discipline on
  every resolver path, strict failure everywhere or degradation everywhere. This fails:
  for Debian \<^verbatim>\<open>testing\<close> the resolver of \<^verbatim>\<open>packagemaps.go\<close> returns the parse error,
  while the resolver of the Dockerfile version returns \<^verbatim>\<open>CommonPackages\<close> with a nil error.
\<close>

theorem C1_mixed_disciplines_counterexample:
  "NewVersion go_version (Version debian_testing) = None \<and>
   fst (GetPackages_pm_run go_version globals_pm debian_testing
          (filteredPackages_pm globals_pm False debian_testing)) = Inl VersionParseError \<and>
   fst (GetPackages_df_run go_version globals_df debian_testing
          (filteredPackages_df globals_df False debian_testing)) = Inr CommonPackages_df"
  by (simp add: GetPackages_pm_run_eq GetPackages_df_run_eq debian_testing_def
      go_NewVersion_testing globals_df_def)

text \<open>
  C1 (amended): when the Version does not parse, each resolver follows its own discipline
  in both boot modes and under every iteration order. \<^verbatim>\<open>GetPackages\<close> of
  \<^verbatim>\<open>packagemaps.go\<close> fails whole with the version parse error and logs nothing;
  \<^verbatim>\<open>GetPackages\<close> of the Dockerfile version returns exactly \<^verbatim>\<open>CommonPackages\<close> with no
  error and no entry of any catalog, not even those keyed \<open>Common\<close>.
\<close>

theorem C1_unparsable_version:
  assumes "NewVersion sv (Version s) = None"
  shows "(\<forall>r. GetPackages_pm sv g tb s r \<longleftrightarrow> r = (Inl VersionParseError, [])) \<and>
         (\<forall>r. GetPackages_df sv g' tb s r \<longleftrightarrow> r = (Inr (CommonPackages g'), []))"
proof -
  have pm: "GetPackages_pm_run sv g s ess = (Inl VersionParseError, [])" for ess
    using assms by (simp add: GetPackages_pm_run_eq)
  have df: "GetPackages_df_run sv g' s ess = (Inr (CommonPackages g'), [])" for ess
    using assms by (simp add: GetPackages_df_run_eq)
  show ?thesis
    unfolding GetPackages_pm_def GetPackages_df_def pm df
    using range_orders_refl by blast
qed

theorem C1_unparsable_version_witness:
  "NewVersion go_version (Version debian_testing) = None \<and>
   GetPackages_pm go_version globals_pm True debian_testing (Inl VersionParseError, []) \<and>
   GetPackages_df go_version globals_df True debian_testing (Inr CommonPackages_df, [])"
proof -
  have h: "NewVersion go_version (Version debian_testing) = None"
    by (simp add: debian_testing_def go_NewVersion_testing)
  show ?thesis
    using h C1_unparsable_version [OF h, of globals_pm True globals_df]
    by (simp add: globals_df_def)
qed

subsection \<open>C2\<close>




subsection \<open>C3\<close>

text \<open>
  C3 (as stated): in trusted-boot mode the ordinary kernel catalog contributes nothing.
  This fails for the resolver of \<^verbatim>\<open>packagemaps.go\<close>: for Debian 12 on amd64 in
  trusted-boot mode the output holds \<^verbatim>\<open>linux-image-amd64\<close>, which comes from
  \<^verbatim>\<open>KernelPackages\<close>: with that catalog emptied the package is gone.
\<close>

theorem C3_ordinary_kernel_in_trusted_boot_counterexample:
  "''linux-image-amd64''
     \<in> set (packages_of (fst (GetPackages_pm_run go_version globals_pm debian_12
                                 (filteredPackages_pm globals_pm True debian_12)))) \<and>
   ''linux-image-amd64''
     \<notin> set (packages_of (fst (GetPackages_pm_run go_version (globals_pm\<lparr>KernelPackages := []\<rparr>)
                                 debian_12
                                 (filteredPackages_pm (globals_pm\<lparr>KernelPackages := []\<rparr>) True
                                    debian_12))))"
proof
  have v: "NewVersion go_version (Version debian_12) = Some [12, 0, 0]"
    by (simp add: debian_12_def go_NewVersion_12)
  have "''linux-image-amd64''
          \<in> set (contribution go_version [12, 0, 0] (filteredPackages_pm globals_pm True debian_12))"
    by (rule in_contribution [OF debian_kernel_pm [of True], of Common
          "[''linux-image-amd64'', ''firmware-linux-free'']"]) (simp_all add: applies_def)
  then show "''linux-image-amd64''
     \<in> set (packages_of (fst (GetPackages_pm_run go_version globals_pm debian_12
                                 (filteredPackages_pm globals_pm True debian_12))))"
    by (simp add: GetPackages_pm_run_eq v packages_of_def)
  have "''linux-image-amd64'' \<notin> set (CommonPackages (globals_pm\<lparr>KernelPackages := []\<rparr>))"
    by (simp add: globals_pm_def CommonPackages_pm_def)
  then show "''linux-image-amd64''
     \<notin> set (packages_of (fst (GetPackages_pm_run go_version (globals_pm\<lparr>KernelPackages := []\<rparr>)
                                 debian_12
                                 (filteredPackages_pm (globals_pm\<lparr>KernelPackages := []\<rparr>) True
                                    debian_12))))"
    using debian_12_kernel_gone by (simp add: GetPackages_pm_run_eq v packages_of_def)
qed

text \<open>
  C3 (amended): both resolvers look up the Base catalog in both modes, the grub and
  immucore catalogs in legacy mode only and the systemd catalog in trusted-boot mode
  only. The Dockerfile resolver looks up \<^verbatim>\<open>KernelPackagesTrustedBoot\<close> in trusted-boot
  mode and \<^verbatim>\<open>KernelPackages\<close> in legacy mode, so that its trusted-boot outcomes do not
  depend on the kernel, grub and immucore catalogs. The resolver of \<^verbatim>\<open>packagemaps.go\<close>
  has no trusted-boot kernel catalog and looks up \<^verbatim>\<open>KernelPackages\<close> in both modes; its
  trusted-boot outcomes do not depend on the grub and immucore catalogs.
\<close>

theorem C3_catalogs_by_mode:
  "filteredPackages_df g True s =
     axis_lookups (BasePackages g) s @ axis_lookups (KernelPackagesTrustedBoot g) s
     @ axis_lookups (SystemdPackages g) s \<and>
   filteredPackages_df g False s =
     axis_lookups (BasePackages g) s @ axis_lookups (KernelPackages g) s
     @ axis_lookups (GrubPackages g) s @ axis_lookups (ImmucorePackages g) s \<and>
   GetPackages_df sv (g\<lparr>KernelPackages := k, GrubPackages := gr, ImmucorePackages := im\<rparr>) True s
     = GetPackages_df sv g True s \<and>
   filteredPackages_pm h True s =
     axis_lookups (BasePackages h) s @ axis_lookups (KernelPackages h) s
     @ axis_lookups (SystemdPackages h) s \<and>
   filteredPackages_pm h False s =
     axis_lookups (BasePackages h) s @ axis_lookups (KernelPackages h) s
     @ axis_lookups (GrubPackages h) s @ axis_lookups (ImmucorePackages h) s \<and>
   GetPackages_pm sv (h\<lparr>GrubPackages := gr, ImmucorePackages := im\<rparr>) True s
     = GetPackages_pm sv h True s"
proof (intro conjI)
  show "GetPackages_df sv (g\<lparr>KernelPackages := k, GrubPackages := gr, ImmucorePackages := im\<rparr>) True s
     = GetPackages_df sv g True s"
    by (rule ext) (simp add: GetPackages_df_def filteredPackages_df_ignores
        GetPackages_df_run_ignores)
  show "GetPackages_pm sv (h\<lparr>GrubPackages := gr, ImmucorePackages := im\<rparr>) True s
     = GetPackages_pm sv h True s"
    by (rule ext) (simp add: GetPackages_pm_def filteredPackages_pm_ignores
        GetPackages_pm_run_ignores)
qed (simp_all add: filteredPackages_df_def filteredPackages_pm_def axis_lookups_def)

subsection \<open>C4\<close>

text \<open>
  C4 (as stated): the kernel and boot packages of the trusted-boot list and of the legacy
  list are disjoint. This fails for Debian 12 on amd64 with the Dockerfile version:
  \<^verbatim>\<open>linux-image-amd64\<close> is contributed by \<^verbatim>\<open>KernelPackagesTrustedBoot\<close> in trusted-boot
  mode and by \<^verbatim>\<open>KernelPackages\<close> in legacy mode, and by neither \<^verbatim>\<open>CommonPackages\<close> nor
  the Base catalog.
\<close>

theorem C4_kernel_in_both_modes_counterexample:
  "NewVersion go_version (Version debian_12) = Some [12, 0, 0] \<and>
   ''linux-image-amd64''
     \<in> set (contribution go_version [12, 0, 0] (drop 4 (filteredPackages_df globals_df True debian_12))) \<and>
   ''linux-image-amd64''
     \<in> set (contribution go_version [12, 0, 0] (drop 4 (filteredPackages_df globals_df False debian_12))) \<and>
   ''linux-image-amd64''
     \<notin> set (CommonPackages globals_df
              @ contribution go_version [12, 0, 0] (axis_lookups (BasePackages globals_df) debian_12))"
proof (intro conjI)
  show "NewVersion go_version (Version debian_12) = Some [12, 0, 0]"
    by (simp add: debian_12_def go_NewVersion_12)
  show "''linux-image-amd64''
     \<in> set (contribution go_version [12, 0, 0] (drop 4 (filteredPackages_df globals_df True debian_12)))"
    by (rule in_contribution [OF debian_kernel_in_boot_df [of True], of Common
          "[''linux-image-amd64'', ''firmware-linux-free'']"]) (simp_all add: applies_def)
  show "''linux-image-amd64''
     \<in> set (contribution go_version [12, 0, 0] (drop 4 (filteredPackages_df globals_df False debian_12)))"
    by (rule in_contribution [OF debian_kernel_in_boot_df [of False], of Common
          "[''linux-image-amd64'', ''firmware-linux-free'']"]) (simp_all add: applies_def)
  have "''linux-image-amd64'' \<notin> set (CommonPackages globals_df)"
    by (simp add: globals_df_def CommonPackages_df_def)
  then show "''linux-image-amd64''
     \<notin> set (CommonPackages globals_df
              @ contribution go_version [12, 0, 0] (axis_lookups (BasePackages globals_df) debian_12))"
    using debian_kernel_not_base_df by simp
qed

text \<open>
  C4 (amended): for a System whose Version parses, the trusted-boot list and the legacy
  list of a resolver are both \<^verbatim>\<open>CommonPackages\<close>, then the Base contribution, then the
  kernel and boot contribution; the Base contributions of the two modes hold the same
  packages the same number of times. The kernel and boot contribution comes from
  \<^verbatim>\<open>KernelPackagesTrustedBoot\<close> and \<^verbatim>\<open>SystemdPackages\<close> in trusted-boot mode and from
  \<^verbatim>\<open>KernelPackages\<close>, \<^verbatim>\<open>GrubPackages\<close> and \<^verbatim>\<open>ImmucorePackages\<close> in legacy mode
  (Dockerfile version), or from \<^verbatim>\<open>KernelPackages\<close> and \<^verbatim>\<open>SystemdPackages\<close> against
  \<^verbatim>\<open>KernelPackages\<close>, \<^verbatim>\<open>GrubPackages\<close> and \<^verbatim>\<open>ImmucorePackages\<close> (\<^verbatim>\<open>packagemaps.go\<close>).
  With the catalogs of the Dockerfile version the two kernel and boot contributions are
  disjoint for Ubuntu systems.
\<close>

theorem C4_modes_share_common_and_base:
  assumes "NewVersion sv (Version s) = Some v"
  shows
    "(GetPackages_df sv g True s rt \<and> GetPackages_df sv g False s rl \<longrightarrow>
       (\<exists>base_t boot_t base_l boot_l.
          fst rt = Inr (CommonPackages g @ base_t @ boot_t) \<and>
          fst rl = Inr (CommonPackages g @ base_l @ boot_l) \<and>
          mset base_t = mset base_l \<and>
          mset base_t = mset (contribution sv v (axis_lookups (BasePackages g) s)) \<and>
          mset boot_t = mset (contribution sv v
             (axis_lookups (KernelPackagesTrustedBoot g) s @ axis_lookups (SystemdPackages g) s)) \<and>
          mset boot_l = mset (contribution sv v
             (axis_lookups (KernelPackages g) s @ axis_lookups (GrubPackages g) s
              @ axis_lookups (ImmucorePackages g) s)) \<and>
          (g = globals_df \<and> Distro s = Ubuntu \<and> Family s = DebianFamily
             \<longrightarrow> set boot_t \<inter> set boot_l = {}))) \<and>
     (GetPackages_pm sv h True s rt' \<and> GetPackages_pm sv h False s rl' \<longrightarrow>
       (\<exists>base_t boot_t base_l boot_l.
          fst rt' = Inr (CommonPackages h @ base_t @ boot_t) \<and>
          fst rl' = Inr (CommonPackages h @ base_l @ boot_l) \<and>
          mset base_t = mset base_l \<and>
          mset base_t = mset (contribution sv v (axis_lookups (BasePackages h) s)) \<and>
          mset boot_t = mset (contribution sv v
             (axis_lookups (KernelPackages h) s @ axis_lookups (SystemdPackages h) s)) \<and>
          mset boot_l = mset (contribution sv v
             (axis_lookups (KernelPackages h) s @ axis_lookups (GrubPackages h) s
              @ axis_lookups (ImmucorePackages h) s))))"
proof (intro conjI impI)
  assume a: "GetPackages_df sv g True s rt \<and> GetPackages_df sv g False s rl"
  from a outcome_split_df [OF assms, of g True rt]
  obtain base_t boot_t where t: "fst rt = Inr (CommonPackages g @ base_t @ boot_t)"
    "mset base_t = mset (contribution sv v (axis_lookups (BasePackages g) s))"
    "mset boot_t = mset (contribution sv v (drop 4 (filteredPackages_df g True s)))"
    by blast
  from a outcome_split_df [OF assms, of g False rl]
  obtain base_l boot_l where l: "fst rl = Inr (CommonPackages g @ base_l @ boot_l)"
    "mset base_l = mset (contribution sv v (axis_lookups (BasePackages g) s))"
    "mset boot_l = mset (contribution sv v (drop 4 (filteredPackages_df g False s)))"
    by blast
  have d: "g = globals_df \<and> Distro s = Ubuntu \<and> Family s = DebianFamily
             \<longrightarrow> set boot_t \<inter> set boot_l = {}"
  proof
    assume u: "g = globals_df \<and> Distro s = Ubuntu \<and> Family s = DebianFamily"
    have "set boot_t \<subseteq> all_packages (drop 4 (filteredPackages_df globals_df True s))"
      using t(3) u contribution_subset_all [of sv v] by (metis set_mset_mset)
    moreover have "set boot_l \<subseteq> all_packages (drop 4 (filteredPackages_df globals_df False s))"
      using l(3) u contribution_subset_all [of sv v] by (metis set_mset_mset)
    ultimately show "set boot_t \<inter> set boot_l = {}"
      using ubuntu_df_boot_disjoint [of s] u by blast
  qed
  show "\<exists>base_t boot_t base_l boot_l.
          fst rt = Inr (CommonPackages g @ base_t @ boot_t) \<and>
          fst rl = Inr (CommonPackages g @ base_l @ boot_l) \<and>
          mset base_t = mset base_l \<and>
          mset base_t = mset (contribution sv v (axis_lookups (BasePackages g) s)) \<and>
          mset boot_t = mset (contribution sv v
             (axis_lookups (KernelPackagesTrustedBoot g) s @ axis_lookups (SystemdPackages g) s)) \<and>
          mset boot_l = mset (contribution sv v
             (axis_lookups (KernelPackages g) s @ axis_lookups (GrubPackages g) s
              @ axis_lookups (ImmucorePackages g) s)) \<and>
          (g = globals_df \<and> Distro s = Ubuntu \<and> Family s = DebianFamily
             \<longrightarrow> set boot_t \<inter> set boot_l = {})"
    using t l d unfolding drop4_df by (intro exI [of _ base_t] exI [of _ boot_t]
        exI [of _ base_l] exI [of _ boot_l]) simp
next
  assume a: "GetPackages_pm sv h True s rt' \<and> GetPackages_pm sv h False s rl'"
  from a outcome_split_pm [OF assms, of h True rt']
  obtain base_t boot_t where t: "fst rt' = Inr (CommonPackages h @ base_t @ boot_t)"
    "mset base_t = mset (contribution sv v (axis_lookups (BasePackages h) s))"
    "mset boot_t = mset (contribution sv v (drop 4 (filteredPackages_pm h True s)))"
    by blast
  from a outcome_split_pm [OF assms, of h False rl']
  obtain base_l boot_l where l: "fst rl' = Inr (CommonPackages h @ base_l @ boot_l)"
    "mset base_l = mset (contribution sv v (axis_lookups (BasePackages h) s))"
    "mset boot_l = mset (contribution sv v (drop 4 (filteredPackages_pm h False s)))"
    by blast
  show "\<exists>base_t boot_t base_l boot_l.
          fst rt' = Inr (CommonPackages h @ base_t @ boot_t) \<and>
          fst rl' = Inr (CommonPackages h @ base_l @ boot_l) \<and>
          mset base_t = mset base_l \<and>
          mset base_t = mset (contribution sv v (axis_lookups (BasePackages h) s)) \<and>
          mset boot_t = mset (contribution sv v
             (axis_lookups (KernelPackages h) s @ axis_lookups (SystemdPackages h) s)) \<and>
          mset boot_l = mset (contribution sv v
             (axis_lookups (KernelPackages h) s @ axis_lookups (GrubPackages h) s
              @ axis_lookups (ImmucorePackages h) s))"
    using t l unfolding drop4_pm by (intro exI [of _ base_t] exI [of _ boot_t]
        exI [of _ base_l] exI [of _ boot_l]) simp
qed

theorem C4_modes_share_common_and_base_witness:
  "NewVersion go_version (Version ubuntu_2404) = Some [24, 4, 0] \<and>
   GetPackages_df go_version globals_df True ubuntu_2404
     (GetPackages_df_run go_version globals_df ubuntu_2404
        (filteredPackages_df globals_df True ubuntu_2404)) \<and>
   GetPackages_df go_version globals_df False ubuntu_2404
     (GetPackages_df_run go_version globals_df ubuntu_2404
        (filteredPackages_df globals_df False ubuntu_2404)) \<and>
   Distro ubuntu_2404 = Ubuntu \<and> Family ubuntu_2404 = DebianFamily \<and>
   (\<exists>base_t boot_t base_l boot_l.
      fst (GetPackages_df_run go_version globals_df ubuntu_2404
             (filteredPackages_df globals_df True ubuntu_2404))
        = Inr (CommonPackages globals_df @ base_t @ boot_t) \<and>
      fst (GetPackages_df_run go_version globals_df ubuntu_2404
             (filteredPackages_df globals_df False ubuntu_2404))
        = Inr (CommonPackages globals_df @ base_l @ boot_l) \<and>
      mset base_t = mset base_l \<and> set boot_t \<inter> set boot_l = {}) \<and>
   GetPackages_pm go_version globals_pm True ubuntu_2404
     (GetPackages_pm_run go_version globals_pm ubuntu_2404
        (filteredPackages_pm globals_pm True ubuntu_2404)) \<and>
   GetPackages_pm go_version globals_pm False ubuntu_2404
     (GetPackages_pm_run go_version globals_pm ubuntu_2404
        (filteredPackages_pm globals_pm False ubuntu_2404)) \<and>
   (\<exists>base_t boot_t base_l boot_l.
      fst (GetPackages_pm_run go_version globals_pm ubuntu_2404
             (filteredPackages_pm globals_pm True ubuntu_2404))
        = Inr (CommonPackages globals_pm @ base_t @ boot_t) \<and>
      fst (GetPackages_pm_run go_version globals_pm ubuntu_2404
             (filteredPackages_pm globals_pm False ubuntu_2404))
        = Inr (CommonPackages globals_pm @ base_l @ boot_l) \<and>
      mset base_t = mset base_l)"
proof -
  have v: "NewVersion go_version (Version ubuntu_2404) = Some [24, 4, 0]"
    by (simp add: ubuntu_2404_def go_NewVersion_2404)
  have u: "Distro ubuntu_2404 = Ubuntu" "Family ubuntu_2404 = DebianFamily"
    by (simp_all add: ubuntu_2404_def)
  note dt = declared_order_df [of go_version globals_df True ubuntu_2404]
  note dl = declared_order_df [of go_version globals_df False ubuntu_2404]
  note pt = declared_order_pm [of go_version globals_pm True ubuntu_2404]
  note pl = declared_order_pm [of go_version globals_pm False ubuntu_2404]
  note inst = C4_modes_share_common_and_base [OF v, of globals_df
      "GetPackages_df_run go_version globals_df ubuntu_2404 (filteredPackages_df globals_df True ubuntu_2404)"
      "GetPackages_df_run go_version globals_df ubuntu_2404 (filteredPackages_df globals_df False ubuntu_2404)"
      globals_pm
      "GetPackages_pm_run go_version globals_pm ubuntu_2404 (filteredPackages_pm globals_pm True ubuntu_2404)"
      "GetPackages_pm_run go_version globals_pm ubuntu_2404 (filteredPackages_pm globals_pm False ubuntu_2404)"]
  from inst dt dl u have df: "\<exists>base_t boot_t base_l boot_l.
      fst (GetPackages_df_run go_version globals_df ubuntu_2404
             (filteredPackages_df globals_df True ubuntu_2404))
        = Inr (CommonPackages globals_df @ base_t @ boot_t) \<and>
      fst (GetPackages_df_run go_version globals_df ubuntu_2404
             (filteredPackages_df globals_df False ubuntu_2404))
        = Inr (CommonPackages globals_df @ base_l @ boot_l) \<and>
      mset base_t = mset base_l \<and> set boot_t \<inter> set boot_l = {}"
    by blast
  from inst pt pl have pm: "\<exists>base_t boot_t base_l boot_l.
      fst (GetPackages_pm_run go_version globals_pm ubuntu_2404
             (filteredPackages_pm globals_pm True ubuntu_2404))
        = Inr (CommonPackages globals_pm @ base_t @ boot_t) \<and>
      fst (GetPackages_pm_run go_version globals_pm ubuntu_2404
             (filteredPackages_pm globals_pm False ubuntu_2404))
        = Inr (CommonPackages globals_pm @ base_l @ boot_l) \<and>
      mset base_t = mset base_l"
    by blast
  show ?thesis using v dt dl u df pt pl pm by blast
qed

subsection \<open>C5\<close>




subsection \<open>C6\<close>

text \<open>
  C6: the evaluator parses \<^verbatim>\<open>>=20.04, != 24.10\<close>, and the constraint holds of version
  \<^verbatim>\<open>24.04\<close> and does not hold of \<^verbatim>\<open>24.10\<close>. For the Ubuntu amd64 System at version
  \<^verbatim>\<open>24.10\<close> the resolver of \<^verbatim>\<open>packagemaps.go\<close>, in either boot mode and under every
  iteration order, returns a list that holds the package list keyed \<^verbatim>\<open>24.10\<close> and does
  not hold the package keyed \<^verbatim>\<open>>=20.04, != 24.10\<close>.
\<close>

theorem C6_hwe_constraint:
  assumes "range_orders (filteredPackages_pm globals_pm tb ubuntu_2410) ess"
  shows "(\<exists>c v1 v2. NewConstraint go_version ''>=20.04, != 24.10'' = Some c \<and>
            NewVersion go_version ''24.04'' = Some v1 \<and>
            NewVersion go_version ''24.10'' = Some v2 \<and>
            Check go_version c v1 \<and> \<not> Check go_version c v2) \<and>
         (\<exists>pkgs. fst (GetPackages_pm_run go_version globals_pm ubuntu_2410 ess) = Inr pkgs \<and>
            sublist [''linux-image-generic-hwe-24.04''] pkgs \<and>
            ''linux-image-generic-hwe-{{.version}}'' \<notin> set pkgs)"
proof
  show "\<exists>c v1 v2. NewConstraint go_version ''>=20.04, != 24.10'' = Some c \<and>
            NewVersion go_version ''24.04'' = Some v1 \<and>
            NewVersion go_version ''24.10'' = Some v2 \<and>
            Check go_version c v1 \<and> \<not> Check go_version c v2"
    using applies_hwe_2404 applies_hwe_2410
    by (simp add: go_constraint_hwe go_NewVersion_2404 go_NewVersion_2410 applies_def Common_def)
next
  let ?ms = "filteredPackages_pm globals_pm tb ubuntu_2410"
  let ?out = "CommonPackages globals_pm @ contribution go_version [24, 10, 0] ess"
  have run: "fst (GetPackages_pm_run go_version globals_pm ubuntu_2410 ess) = Inr ?out"
    by (simp add: GetPackages_pm_run_eq ubuntu_2410_def go_NewVersion_2410)
  have inc: "sublist [''linux-image-generic-hwe-24.04''] ?out"
    using assms kernel_map_pm_ubuntu_2410 _ applies_exact_2410
    by (rule sublist_contribution) simp
  have "''linux-image-generic-hwe-{{.version}}'' \<notin> set (contribution go_version [24, 10, 0] ess)"
    using hwe_template_absent [of tb] contribution_set_order [OF assms, of go_version "[24, 10, 0]"]
    by simp
  moreover have "''linux-image-generic-hwe-{{.version}}'' \<notin> set (CommonPackages globals_pm)"
    by (simp add: globals_pm_def CommonPackages_pm_def)
  ultimately have exc: "''linux-image-generic-hwe-{{.version}}'' \<notin> set ?out" by simp
  show "\<exists>pkgs. fst (GetPackages_pm_run go_version globals_pm ubuntu_2410 ess) = Inr pkgs \<and>
            sublist [''linux-image-generic-hwe-24.04''] pkgs \<and>
            ''linux-image-generic-hwe-{{.version}}'' \<notin> set pkgs"
    using run inc exc by blast
qed

theorem C6_hwe_constraint_witness:
  "range_orders (filteredPackages_pm globals_pm False ubuntu_2410)
                (filteredPackages_pm globals_pm False ubuntu_2410) \<and>
   (\<exists>pkgs. fst (GetPackages_pm_run go_version globals_pm ubuntu_2410
                  (filteredPackages_pm globals_pm False ubuntu_2410)) = Inr pkgs \<and>
      sublist [''linux-image-generic-hwe-24.04''] pkgs \<and>
      ''linux-image-generic-hwe-{{.version}}'' \<notin> set pkgs)"
  using C6_hwe_constraint [OF range_orders_refl, of False] range_orders_refl by blast

subsection \<open>C7\<close>

text \<open>
  C7: for a System whose Version parses, every package list keyed \<open>Common\<close> in a version
  map the resolver looks up (a selected catalog under the System's distro or family and
  the any-architecture key or the System's architecture) appears in the output as a
  contiguous block, whatever the Version and whatever the iteration order. This holds of
  both resolvers.
\<close>

theorem C7_common_entries_included:
  assumes "NewVersion sv (Version s) = Some v"
  shows "(GetPackages_pm sv g tb s r \<and> m \<in> set (filteredPackages_pm g tb s) \<and> (Common, vals) \<in> set m
            \<longrightarrow> (\<exists>pkgs. fst r = Inr pkgs \<and> sublist vals pkgs)) \<and>
         (GetPackages_df sv g' tb s r' \<and> m' \<in> set (filteredPackages_df g' tb s) \<and> (Common, vals') \<in> set m'
            \<longrightarrow> (\<exists>pkgs. fst r' = Inr pkgs \<and> sublist vals' pkgs))"
  using assms
  by (auto simp: GetPackages_pm_def GetPackages_df_def GetPackages_pm_run_eq
      GetPackages_df_run_eq intro: common_entry_sublist)

theorem C7_common_entries_included_witness:
  "NewVersion go_version (Version debian_12) = Some [12, 0, 0] \<and>
   (\<exists>pkgs. fst (GetPackages_pm_run go_version globals_pm debian_12
                  (filteredPackages_pm globals_pm False debian_12)) = Inr pkgs \<and>
           sublist [''linux-image-amd64'', ''firmware-linux-free''] pkgs) \<and>
   (\<exists>pkgs. fst (GetPackages_df_run go_version globals_df debian_12
                  (filteredPackages_df globals_df False debian_12)) = Inr pkgs \<and>
           sublist [''linux-image-amd64'', ''firmware-linux-free''] pkgs)"
proof -
  have v: "NewVersion go_version (Version debian_12) = Some [12, 0, 0]"
    by (simp add: debian_12_def go_NewVersion_12)
  have e: "(Common, [''linux-image-amd64'', ''firmware-linux-free''])
             \<in> set [(Common, [''linux-image-amd64'', ''firmware-linux-free''])]"
    by simp
  show ?thesis
    using v C7_common_entries_included [OF v, of globals_pm False
        "GetPackages_pm_run go_version globals_pm debian_12 (filteredPackages_pm globals_pm False debian_12)"
        "[(Common, [''linux-image-amd64'', ''firmware-linux-free''])]"
        "[''linux-image-amd64'', ''firmware-linux-free'']"
        globals_df
        "GetPackages_df_run go_version globals_df debian_12 (filteredPackages_df globals_df False debian_12)"
        "[(Common, [''linux-image-amd64'', ''firmware-linux-free''])]"
        "[''linux-image-amd64'', ''firmware-linux-free'']"]
      declared_order_pm [of go_version globals_pm False debian_12]
      declared_order_df [of go_version globals_df False debian_12]
      debian_kernel_pm [of False] debian_kernel_df e
    by blast
qed

subsection \<open>C8\<close>

text \<open>
  C8: for a System whose Version parses, an entry whose constraint key does not parse is
  skipped after an error record is logged, and the loop goes on with the next entry; the
  call still returns a package list, the same list as when the malformed entries are
  removed from every map visited, so no other entry is affected. This holds of both
  resolvers.
\<close>

theorem C8_malformed_constraint_skipped:
  assumes "NewVersion sv (Version s) = Some v"
  shows "(malformed sv c \<longrightarrow>
            range_packages sv v ((c, vals) # rest) (pkgs, lg) =
            range_packages sv v rest
              (pkgs, lg @ [LogDebug [Str ''constraint'' c, Str ''version'' (VersionString sv v)]
                                    ''Checking constraint'',
                           LogError [Err, Str ''constraint'' c] ''Error parsing constraint.''])) \<and>
         (\<exists>out. fst (GetPackages_pm_run sv g s ess) = Inr out \<and>
                fst (GetPackages_pm_run sv g s
                       (map (filter (\<lambda>e. \<not> malformed sv (fst e))) ess)) = Inr out) \<and>
         (\<exists>out. fst (GetPackages_df_run sv g' s ess) = Inr out \<and>
                fst (GetPackages_df_run sv g' s
                       (map (filter (\<lambda>e. \<not> malformed sv (fst e))) ess)) = Inr out) \<and>
         (range_orders ms ess \<longrightarrow>
            range_orders (map (filter (\<lambda>e. \<not> malformed sv (fst e))) ms)
                         (map (filter (\<lambda>e. \<not> malformed sv (fst e))) ess)) \<and>
         (malformed sv c \<and> (c, vals) \<in> set (concat ess) \<longrightarrow>
            LogError [Err, Str ''constraint'' c] ''Error parsing constraint.''
              \<in> set (snd (GetPackages_pm_run sv g s ess)) \<inter> set (snd (GetPackages_df_run sv g' s ess)))"
proof (intro conjI impI)
  assume "malformed sv c"
  then show "range_packages sv v ((c, vals) # rest) (pkgs, lg) =
            range_packages sv v rest
              (pkgs, lg @ [LogDebug [Str ''constraint'' c, Str ''version'' (VersionString sv v)]
                                    ''Checking constraint'',
                           LogError [Err, Str ''constraint'' c] ''Error parsing constraint.''])"
    by (simp add: malformed_def)
next
  show "\<exists>out. fst (GetPackages_pm_run sv g s ess) = Inr out \<and>
                fst (GetPackages_pm_run sv g s
                       (map (filter (\<lambda>e. \<not> malformed sv (fst e))) ess)) = Inr out"
    using assms by (simp add: GetPackages_pm_run_eq contribution_skip_malformed)
next
  show "\<exists>out. fst (GetPackages_df_run sv g' s ess) = Inr out \<and>
                fst (GetPackages_df_run sv g' s
                       (map (filter (\<lambda>e. \<not> malformed sv (fst e))) ess)) = Inr out"
    using assms by (simp add: GetPackages_df_run_eq contribution_skip_malformed)
next
  assume "range_orders ms ess"
  then show "range_orders (map (filter (\<lambda>e. \<not> malformed sv (fst e))) ms)
                         (map (filter (\<lambda>e. \<not> malformed sv (fst e))) ess)"
    by (rule range_orders_filter)
next
  assume a: "malformed sv c \<and> (c, vals) \<in> set (concat ess)"
  then have "LogError [Err, Str ''constraint'' c] ''Error parsing constraint.''
               \<in> set (entry_log sv v (c, vals))"
    by (simp add: entry_log_def malformed_def)
  with a have "LogError [Err, Str ''constraint'' c] ''Error parsing constraint.''
               \<in> set (messages sv v ess)"
    using entry_log_in_messages [of "(c, vals)" ess sv v] by blast
  then show "LogError [Err, Str ''constraint'' c] ''Error parsing constraint.''
              \<in> set (snd (GetPackages_pm_run sv g s ess)) \<inter> set (snd (GetPackages_df_run sv g' s ess))"
    using assms by (simp add: GetPackages_pm_run_eq GetPackages_df_run_eq)
qed

theorem C8_malformed_constraint_skipped_witness:
  "NewVersion go_version (Version debian_12) = Some [12, 0, 0] \<and>
   malformed go_version ''bookworm'' \<and>
   (''bookworm'', [''systemd-cryptsetup''])
     \<in> set (concat (filteredPackages_pm globals_pm False debian_12)) \<and>
   range_orders (filteredPackages_pm globals_pm False debian_12)
     (filteredPackages_pm globals_pm False debian_12) \<and>
   range_packages go_version [12, 0, 0] [(''bookworm'', [''systemd-cryptsetup''])] ([], []) =
     ([], [LogDebug [Str ''constraint'' ''bookworm'', Str ''version'' (VersionString go_version [12, 0, 0])]
                    ''Checking constraint'',
           LogError [Err, Str ''constraint'' ''bookworm''] ''Error parsing constraint.'']) \<and>
   LogError [Err, Str ''constraint'' ''bookworm''] ''Error parsing constraint.''
     \<in> set (snd (GetPackages_pm_run go_version globals_pm debian_12
                   (filteredPackages_pm globals_pm False debian_12))) \<and>
   range_orders
     (map (filter (\<lambda>e. \<not> malformed go_version (fst e))) (filteredPackages_pm globals_pm False debian_12))
     (map (filter (\<lambda>e. \<not> malformed go_version (fst e))) (filteredPackages_pm globals_pm False debian_12))"
proof -
  have v: "NewVersion go_version (Version debian_12) = Some [12, 0, 0]"
    by (simp add: debian_12_def go_NewVersion_12)
  show ?thesis
    using v bookworm_malformed bookworm_visited
      range_orders_refl [of "filteredPackages_pm globals_pm False debian_12"]
      C8_malformed_constraint_skipped [OF v, of "''bookworm''" "[''systemd-cryptsetup'']" "[]" "[]" "[]"
        globals_pm "filteredPackages_pm globals_pm False debian_12" globals_df
        "filteredPackages_pm globals_pm False debian_12"]
    by simp
qed

subsection \<open>C9\<close>

text \<open>
  C9: when the selector is absent from a catalog, or the architecture is absent under a
  present selector, the lookup yields the nil map: the iteration over it has no entry to
  visit, leaves the accumulated packages and the log as they are, and the output is the
  one obtained without that lookup. No lookup makes a call fail: each resolver has an
  outcome for every input, the Dockerfile resolver never returns an error, and the
  resolver of \<^verbatim>\<open>packagemaps.go\<close> returns one only for a Version that does not parse.
\<close>

theorem C9_missing_axis_contributes_nothing:
  assumes "map_of pm k = None \<or> (\<exists>am. map_of pm k = Some am \<and> map_of am a = None)"
  shows "lookup pm k a = [] \<and>
         (\<forall>es. range_order (lookup pm k a) es \<longleftrightarrow> es = []) \<and>
         range_packages sv v (lookup pm k a) st = st \<and>
         contribution sv v (pre @ [lookup pm k a] @ post) = contribution sv v (pre @ post) \<and>
         (\<exists>r. GetPackages_pm sv g tb s r) \<and>
         (\<forall>r. GetPackages_pm sv g tb s r \<longrightarrow>
              (case NewVersion sv (Version s) of
                 None \<Rightarrow> fst r = Inl VersionParseError
               | Some w \<Rightarrow> (\<exists>pkgs. fst r = Inr pkgs))) \<and>
         (\<exists>r. GetPackages_df sv g' tb s r) \<and>
         (\<forall>r. GetPackages_df sv g' tb s r \<longrightarrow> (\<exists>pkgs. fst r = Inr pkgs))"
proof -
  have l: "lookup pm k a = []" using assms by (rule lookup_missing)
  have pm: "\<forall>r. GetPackages_pm sv g tb s r \<longrightarrow>
              (case NewVersion sv (Version s) of
                 None \<Rightarrow> fst r = Inl VersionParseError
               | Some w \<Rightarrow> (\<exists>pkgs. fst r = Inr pkgs))"
    by (auto simp: GetPackages_pm_def GetPackages_pm_run_eq split: option.split)
  have df: "\<forall>r. GetPackages_df sv g' tb s r \<longrightarrow> (\<exists>pkgs. fst r = Inr pkgs)"
    by (auto simp: GetPackages_df_def GetPackages_df_run_eq split: option.split)
  have e1: "\<exists>r. GetPackages_pm sv g tb s r" by (rule GetPackages_pm_total)
  have e2: "\<exists>r. GetPackages_df sv g' tb s r" by (rule GetPackages_df_total)
  have o: "\<forall>es. range_order [] es \<longleftrightarrow> es = []" by (simp add: range_order_def)
  have c: "contribution sv v (pre @ [ []] @ post) = contribution sv v (pre @ post)"
    by (simp add: contribution_def)
  show ?thesis
    unfolding l using pm df e1 e2 o c by (intro conjI) simp_all
qed

theorem C9_missing_axis_contributes_nothing_witness:
  "map_of SystemdPackages_pm (OfDistro Debian) = None \<and>
   lookup SystemdPackages_pm (OfDistro Debian) ArchCommon = [] \<and>
   range_order (lookup SystemdPackages_pm (OfDistro Debian) ArchCommon) [] \<and>
   range_packages go_version [12, 0, 0] (lookup SystemdPackages_pm (OfDistro Debian) ArchCommon)
     ([''file''], []) = ([''file''], []) \<and>
   GetPackages_pm go_version globals_pm True debian_12
     (GetPackages_pm_run go_version globals_pm debian_12
        (filteredPackages_pm globals_pm True debian_12)) \<and>
   (\<exists>pkgs. fst (GetPackages_pm_run go_version globals_pm debian_12
                  (filteredPackages_pm globals_pm True debian_12)) = Inr pkgs) \<and>
   GetPackages_df go_version globals_df True debian_12
     (GetPackages_df_run go_version globals_df debian_12
        (filteredPackages_df globals_df True debian_12)) \<and>
   (\<exists>pkgs. fst (GetPackages_df_run go_version globals_df debian_12
                  (filteredPackages_df globals_df True debian_12)) = Inr pkgs)"
proof -
  have n: "map_of SystemdPackages_pm (OfDistro Debian) = None"
    by (simp add: SystemdPackages_pm_def)
  then have h: "map_of SystemdPackages_pm (OfDistro Debian) = None
           \<or> (\<exists>am. map_of SystemdPackages_pm (OfDistro Debian) = Some am \<and> map_of am ArchCommon = None)"
    by simp
  have v: "NewVersion go_version (Version debian_12) = Some [12, 0, 0]"
    by (simp add: debian_12_def go_NewVersion_12)
  note pm = declared_order_pm [of go_version globals_pm True debian_12]
  note df = declared_order_df [of go_version globals_df True debian_12]
  note inst = C9_missing_axis_contributes_nothing [OF h, of go_version "[12, 0, 0]" "([''file''], [])"
        "[]" "[]" globals_pm True debian_12 globals_df]
  from inst pm
  have "case NewVersion go_version (Version debian_12) of
          None \<Rightarrow> fst (GetPackages_pm_run go_version globals_pm debian_12
                           (filteredPackages_pm globals_pm True debian_12)) = Inl VersionParseError
        | Some w \<Rightarrow> \<exists>pkgs. fst (GetPackages_pm_run go_version globals_pm debian_12
                                   (filteredPackages_pm globals_pm True debian_12)) = Inr pkgs"
    by blast
  then have a: "\<exists>pkgs. fst (GetPackages_pm_run go_version globals_pm debian_12
                  (filteredPackages_pm globals_pm True debian_12)) = Inr pkgs"
    by (simp add: v)
  from inst df
  have b: "\<exists>pkgs. fst (GetPackages_df_run go_version globals_df debian_12
                  (filteredPackages_df globals_df True debian_12)) = Inr pkgs"
    by blast
  show ?thesis using n inst pm df a b by blast
qed

subsection \<open>C10\<close>



end
